theory Spec2Isabelle
  imports Complex_Main "HOL-Library.Sublist"
begin

section \<open>JavaScript values, strings and exceptions\<close>

text \<open>
  The library is TypeScript. Its functions are typed to take strings, but they test their
  arguments at run time (\<^verbatim>\<open>!x || typeof x !== 'string'\<close>), so an argument that is so
  tested is a \<open>js_value\<close>. A string is a list of code units; the model covers the code
  units below 256, one \<open>char\<close> each. Numbers are idealised: integers for times, sizes
  and counts, reals for zoom factors and pixel dimensions, with \<^verbatim>\<open>NaN\<close> beside the reals
  where the program computes with a value that may be \<^verbatim>\<open>undefined\<close>.
\<close>

datatype js_value =
    JsUndefined
  | JsNull
  | JsBoolean bool
  | JsNumber int
  | JsString string
  | JsObject

fun truthy :: "js_value \<Rightarrow> bool" where
  "truthy JsUndefined = False"
| "truthy JsNull = False"
| "truthy (JsBoolean b) = b"
| "truthy (JsNumber n) = (n \<noteq> 0)"
| "truthy (JsString s) = (s \<noteq> [])"
| "truthy JsObject = True"

fun typeof :: "js_value \<Rightarrow> string" where
  "typeof JsUndefined = ''undefined''"
| "typeof JsNull = ''object''"
| "typeof (JsBoolean b) = ''boolean''"
| "typeof (JsNumber n) = ''number''"
| "typeof (JsString s) = ''string''"
| "typeof JsObject = ''object''"

text \<open>
  A property of an options object is declared optional (\<^verbatim>\<open>fontSize?: string\<close>). The object
  a caller passes may lack the property, may hold a value under it, or may hold it with
  the value \<^verbatim>\<open>undefined\<close>: \<^verbatim>\<open>{ fontSize: undefined }\<close> has the declared type as well. The last
  two are the values of \<open>'a or_undefined\<close>; an optional property is an
  \<open>'a or_undefined option\<close>, with \<open>None\<close> for a property that is not there.
\<close>

datatype 'a or_undefined = Undefined | Defined 'a

text \<open>
  A zoom factor or a pixel dimension: a real or \<^verbatim>\<open>NaN\<close>. \<open>toNumber\<close> is the conversion an
  arithmetic operator, a comparison or a \<^verbatim>\<open>Math\<close> function applies to its operand, which
  makes \<^verbatim>\<open>NaN\<close> of \<^verbatim>\<open>undefined\<close>. \<open>arith\<close> lifts a binary operation on the reals (\<^verbatim>\<open>-\<close>,
  \<^verbatim>\<open>/\<close>, \<^verbatim>\<open>Math.max\<close>, \<^verbatim>\<open>Math.min\<close>): the result is \<^verbatim>\<open>NaN\<close> as soon as an operand is. A
  comparison with \<^verbatim>\<open>NaN\<close> is false. \<^verbatim>\<open>Math.round\<close> gives the nearest integer, a half going
  up.
\<close>

datatype js_number = NaN | Number real

definition toNumber :: "js_number or_undefined \<Rightarrow> js_number" where
  "toNumber v = (case v of Defined n \<Rightarrow> n | Undefined \<Rightarrow> NaN)"

definition arith :: "(real \<Rightarrow> real \<Rightarrow> real) \<Rightarrow> js_number \<Rightarrow> js_number \<Rightarrow> js_number" where
  "arith f a b =
     (case a of
        Number x \<Rightarrow> (case b of Number y \<Rightarrow> Number (f x y) | NaN \<Rightarrow> NaN)
      | NaN \<Rightarrow> NaN)"

definition negate :: "js_number \<Rightarrow> js_number" where
  "negate a = (case a of Number x \<Rightarrow> Number (- x) | NaN \<Rightarrow> NaN)"

definition numLess :: "js_number \<Rightarrow> js_number \<Rightarrow> bool" where
  "numLess a b =
     (case a of
        Number x \<Rightarrow> (case b of Number y \<Rightarrow> x < y | NaN \<Rightarrow> False)
      | NaN \<Rightarrow> False)"

definition mathRound :: "js_number \<Rightarrow> js_number" where
  "mathRound a = (case a of Number x \<Rightarrow> Number (of_int \<lfloor>x + 1 / 2\<rfloor>) | NaN \<Rightarrow> NaN)"

text \<open>\<^verbatim>\<open>s.startsWith(p)\<close> and \<^verbatim>\<open>s.includes(sub)\<close>.\<close>

fun startsWith :: "string \<Rightarrow> string \<Rightarrow> bool" where
  "startsWith s [] = True"
| "startsWith [] (p # ps) = False"
| "startsWith (c # cs) (p # ps) = (c = p \<and> startsWith cs ps)"

fun str_includes :: "string \<Rightarrow> string \<Rightarrow> bool" where
  "str_includes [] sub = (sub = [])"
| "str_includes (c # cs) sub = (startsWith (c # cs) sub \<or> str_includes cs sub)"

text \<open>
  \<^verbatim>\<open>s.trim()\<close> removes white space and line terminators at both ends; below code unit
  256 these are TAB, LF, VT, FF, CR, SP and NBSP.
\<close>

definition isWhiteSpace :: "char \<Rightarrow> bool" where
  "isWhiteSpace c = (c \<in> set [CHR 0x09, CHR 0x0A, CHR 0x0B, CHR 0x0C, CHR 0x0D, CHR 0x20, CHR 0xA0])"

definition trim :: "string \<Rightarrow> string" where
  "trim s = rev (dropWhile isWhiteSpace (rev (dropWhile isWhiteSpace s)))"

text \<open>\<^verbatim>\<open>(s.match(/c/g) || []).length\<close> for a one-character pattern: the occurrences of \<open>c\<close>.\<close>

definition countMatches :: "char \<Rightarrow> string \<Rightarrow> nat" where
  "countMatches c s = length (filter (\<lambda>x. x = c) s)"

text \<open>\<^verbatim>\<open>xs.join(sep)\<close>.\<close>

fun join :: "string \<Rightarrow> string list \<Rightarrow> string" where
  "join sep [] = []"
| "join sep [x] = x"
| "join sep (x # y # ys) = x @ sep @ join sep (y # ys)"

text \<open>
  The two error classes of the library, and \<open>Error\<close> for every exception that is not an
  instance of either. What the platform throws (fetch, the simulated DOM, the diagram
  engine) is taken to be such an \<open>Error\<close>, given by its message.
\<close>

datatype js_error =
    Error (message: string)
  | FileLoadError (message: string) (filePath: string) (cause: "js_error option")
  | SvgGenerationError (message: string) (bpmnXml: "string option") (cause: "js_error option")
where
  "filePath (Error m) = []"
| "filePath (SvgGenerationError m x c) = []"
| "bpmnXml (Error m) = None"
| "bpmnXml (FileLoadError m p c) = None"
| "cause (Error m) = None"

section \<open>theme/colors: the palette\<close>

datatype ornl_color = PRIMARY | SECONDARY | NEUTRAL | TEXT_PRIMARY | WHITE | BLACK

datatype ornl_accent = FORGE | SPARK | PLASMA | PULSAR

datatype bpmn_semantic =
  START_EVENT | END_EVENT | TASK | GATEWAY | SEQUENCE_FLOW | POOL | TEXT | BORDER |
  BACKGROUND | ERROR | HIGHLIGHT

fun ORNL_COLORS :: "ornl_color \<Rightarrow> string" where
  "ORNL_COLORS PRIMARY = ''#00662C''"
| "ORNL_COLORS SECONDARY = ''#00454D''"
| "ORNL_COLORS NEUTRAL = ''#DBDCDB''"
| "ORNL_COLORS TEXT_PRIMARY = ''#373A36''"
| "ORNL_COLORS WHITE = ''#FFFFFF''"
| "ORNL_COLORS BLACK = ''#000000''"

fun ORNL_ACCENTS :: "ornl_accent \<Rightarrow> string" where
  "ORNL_ACCENTS FORGE = ''#FE5000''"
| "ORNL_ACCENTS SPARK = ''#F5B800''"
| "ORNL_ACCENTS PLASMA = ''#0077C8''"
| "ORNL_ACCENTS PULSAR = ''#702F8A''"

fun BPMN_SEMANTIC_COLORS :: "bpmn_semantic \<Rightarrow> string" where
  "BPMN_SEMANTIC_COLORS START_EVENT = ORNL_ACCENTS SPARK"
| "BPMN_SEMANTIC_COLORS END_EVENT = ORNL_ACCENTS FORGE"
| "BPMN_SEMANTIC_COLORS TASK = ORNL_COLORS PRIMARY"
| "BPMN_SEMANTIC_COLORS GATEWAY = ORNL_ACCENTS PLASMA"
| "BPMN_SEMANTIC_COLORS SEQUENCE_FLOW = ORNL_COLORS TEXT_PRIMARY"
| "BPMN_SEMANTIC_COLORS POOL = ORNL_COLORS NEUTRAL"
| "BPMN_SEMANTIC_COLORS TEXT = ORNL_COLORS TEXT_PRIMARY"
| "BPMN_SEMANTIC_COLORS BORDER = ORNL_COLORS SECONDARY"
| "BPMN_SEMANTIC_COLORS BACKGROUND = ORNL_COLORS WHITE"
| "BPMN_SEMANTIC_COLORS ERROR = ORNL_ACCENTS FORGE"
| "BPMN_SEMANTIC_COLORS HIGHLIGHT = ORNL_ACCENTS PULSAR"

text \<open>
  The format the palette's test checks, \<^verbatim>\<open>/^#[0-9A-F]{6}$/i\<close>: a hash sign and exactly
  six hexadecimal digits of either case.
\<close>

definition isHexDigit :: "char \<Rightarrow> bool" where
  "isHexDigit c =
     (let n = (of_char c :: nat)
      in (48 \<le> n \<and> n \<le> 57) \<or> (65 \<le> n \<and> n \<le> 70) \<or> (97 \<le> n \<and> n \<le> 102))"

fun hexColorRegex :: "string \<Rightarrow> bool" where
  "hexColorRegex [] = False"
| "hexColorRegex (c # cs) = (c = CHR ''#'' \<and> length cs = 6 \<and> list_all isHexDigit cs)"

section \<open>theme/ornl-theme: the CSS variables\<close>

text \<open>
  A theme object is a finite map from the nine option names to their values. The caller's
  options may leave any of them out, or hold any of them as \<^verbatim>\<open>undefined\<close>;
  \<open>DEFAULT_ORNL_THEME\<close> has them all. The object spread
  \<^verbatim>\<open>{ ...DEFAULT_ORNL_THEME, ...options }\<close> is map override: it copies every property the
  options object has, also one whose value is \<^verbatim>\<open>undefined\<close>. Reading a property that is
  not there gives \<^verbatim>\<open>undefined\<close>, and a template literal prints \<^verbatim>\<open>undefined\<close> by its name.
  The parameter \<open>options\<close> has the empty object as its default, so a call without
  options is the call with the empty map.
\<close>

datatype theme_field =
  primaryColor | secondaryColor | backgroundColor | textColor | errorColor |
  fontFamily | fontSize | borderWidth | borderRadius

type_synonym BpmnThemeOptions = "theme_field \<rightharpoonup> string or_undefined"

fun DEFAULT_ORNL_THEME :: "BpmnThemeOptions" where
  "DEFAULT_ORNL_THEME primaryColor = Some (Defined (ORNL_COLORS PRIMARY))"
| "DEFAULT_ORNL_THEME secondaryColor = Some (Defined (ORNL_COLORS SECONDARY))"
| "DEFAULT_ORNL_THEME backgroundColor = Some (Defined (ORNL_COLORS WHITE))"
| "DEFAULT_ORNL_THEME textColor = Some (Defined (ORNL_COLORS TEXT_PRIMARY))"
| "DEFAULT_ORNL_THEME errorColor = Some (Defined (BPMN_SEMANTIC_COLORS ERROR))"
| "DEFAULT_ORNL_THEME fontFamily = Some (Defined ''Inter, system-ui, -apple-system, sans-serif'')"
| "DEFAULT_ORNL_THEME fontSize = Some (Defined ''12px'')"
| "DEFAULT_ORNL_THEME borderWidth = Some (Defined ''1.5px'')"
| "DEFAULT_ORNL_THEME borderRadius = Some (Defined ''4px'')"

definition spread :: "('k \<rightharpoonup> 'v) \<Rightarrow> ('k \<rightharpoonup> 'v) \<Rightarrow> ('k \<rightharpoonup> 'v)" where
  "spread defaults options = defaults ++ options"

definition getProperty :: "('k \<rightharpoonup> 'v or_undefined) \<Rightarrow> 'k \<Rightarrow> 'v or_undefined" where
  "getProperty obj k = (case obj k of Some v \<Rightarrow> v | None \<Rightarrow> Undefined)"

definition interpolate :: "string or_undefined \<Rightarrow> string" where
  "interpolate v = (case v of Defined s \<Rightarrow> s | Undefined \<Rightarrow> ''undefined'')"

text \<open>The array literal of \<open>generateOrnlCssVariables\<close>, over the merged theme.\<close>

definition cssDeclarations :: "BpmnThemeOptions \<Rightarrow> string list" where
  "cssDeclarations theme =
     [''--ornl-primary: '' @ interpolate (getProperty theme primaryColor),
      ''--ornl-secondary: '' @ interpolate (getProperty theme secondaryColor),
      ''--ornl-background: '' @ interpolate (getProperty theme backgroundColor),
      ''--ornl-text: '' @ interpolate (getProperty theme textColor),
      ''--ornl-error: '' @ interpolate (getProperty theme errorColor),
      ''--ornl-font-family: '' @ interpolate (getProperty theme fontFamily),
      ''--ornl-font-size: '' @ interpolate (getProperty theme fontSize),
      ''--ornl-border-width: '' @ interpolate (getProperty theme borderWidth),
      ''--ornl-border-radius: '' @ interpolate (getProperty theme borderRadius),
      ''--bpmn-start-event: '' @ BPMN_SEMANTIC_COLORS START_EVENT,
      ''--bpmn-end-event: '' @ BPMN_SEMANTIC_COLORS END_EVENT,
      ''--bpmn-task: '' @ BPMN_SEMANTIC_COLORS TASK,
      ''--bpmn-gateway: '' @ BPMN_SEMANTIC_COLORS GATEWAY,
      ''--bpmn-sequence-flow: '' @ BPMN_SEMANTIC_COLORS SEQUENCE_FLOW,
      ''--bpmn-pool: '' @ BPMN_SEMANTIC_COLORS POOL,
      ''--bpmn-border: '' @ BPMN_SEMANTIC_COLORS BORDER,
      ''--bpmn-highlight: '' @ BPMN_SEMANTIC_COLORS HIGHLIGHT]"

definition generateOrnlCssVariables :: "BpmnThemeOptions \<Rightarrow> string" where
  "generateOrnlCssVariables options =
     (let theme = spread DEFAULT_ORNL_THEME options
      in join ''; '' (cssDeclarations theme))"

text \<open>
  The custom property each option is printed under: the first nine lines of the array
  literal, read as a table. Only the statements about \<open>generateOrnlCssVariables\<close> use it.
\<close>

fun cssVariableName :: "theme_field \<Rightarrow> string" where
  "cssVariableName primaryColor = ''--ornl-primary''"
| "cssVariableName secondaryColor = ''--ornl-secondary''"
| "cssVariableName backgroundColor = ''--ornl-background''"
| "cssVariableName textColor = ''--ornl-text''"
| "cssVariableName errorColor = ''--ornl-error''"
| "cssVariableName fontFamily = ''--ornl-font-family''"
| "cssVariableName fontSize = ''--ornl-font-size''"
| "cssVariableName borderWidth = ''--ornl-border-width''"
| "cssVariableName borderRadius = ''--ornl-border-radius''"

section \<open>core/svg-generator: superficial validation\<close>

record ValidationResult =
  isValid :: bool
  errors :: "string list"
  warnings :: "string list"

text \<open>The string that a value is, read once the check of its type has passed.\<close>

definition theString :: "js_value \<Rightarrow> string" where
  "theString v = (case v of JsString s \<Rightarrow> s | _ \<Rightarrow> [])"

text \<open>
  \<open>validateBpmnXml\<close> of \<^verbatim>\<open>src/core/svg-generator.ts\<close>, the module \<^verbatim>\<open>utils/file-loader\<close>
  imports it from. \<open>errors\<close> and \<open>warnings\<close> grow by \<^verbatim>\<open>push\<close>, in the order of the checks.
\<close>

definition validateBpmnXml :: "js_value \<Rightarrow> ValidationResult" where
  "validateBpmnXml v =
     (if \<not> truthy v \<or> typeof v \<noteq> ''string'' then
        \<lparr>isValid = False, errors = [''BPMN XML must be a non-empty string''], warnings = []\<rparr>
      else
        let s = theString v;
            errors1 = (if \<not> startsWith (trim s) ''<''
                       then [''Invalid XML: must start with opening tag''] else []);
            errors2 = (if \<not> str_includes s ''xmlns:bpmn'' \<and>
                          \<not> str_includes s ''http://www.omg.org/spec/BPMN''
                       then errors1 @ [''Invalid BPMN: missing BPMN namespace declaration'']
                       else errors1);
            errors3 = (if \<not> str_includes s ''<definitions'' \<and>
                          \<not> str_includes s ''<bpmn:definitions''
                       then errors2 @ [''Invalid BPMN: missing definitions element'']
                       else errors2);
            warnings1 = (if \<not> str_includes s ''<process'' \<and>
                            \<not> str_includes s ''<bpmn:process''
                         then [''BPMN appears to contain no process definitions''] else []);
            openTags = countMatches CHR ''<'' s;
            closeTags = countMatches CHR ''>'' s;
            warnings2 = (if openTags \<noteq> closeTags
                         then warnings1 @ [''XML structure may be malformed (unmatched tags)'']
                         else warnings1)
        in \<lparr>isValid = (length errors3 = 0), errors = errors3, warnings = warnings2\<rparr>)"

text \<open>
  \<open>validateBpmnXml\<close> of the second generator module in the repository (the one that loads
  \<^verbatim>\<open>bpmn-js/lib/Viewer.js\<close>). It has the same signature and documentation, but throws an
  \<open>SvgGenerationError\<close> where the first module pushes onto \<open>errors\<close>, so \<open>errors\<close> is
  empty whenever it returns.
\<close>

definition validateBpmnXml2 :: "js_value \<Rightarrow> js_error + ValidationResult" where
  "validateBpmnXml2 v =
     (if \<not> truthy v \<or> typeof v \<noteq> ''string'' then
        Inl (SvgGenerationError ''BPMN XML must be a non-empty string'' None None)
      else
        let s = theString v
        in if \<not> startsWith (trim s) ''<'' then
             Inl (SvgGenerationError ''Invalid XML: must start with opening tag'' None None)
           else if \<not> str_includes s ''<bpmn'' \<and> \<not> str_includes s ''<definitions'' then
             Inl (SvgGenerationError ''Invalid BPMN XML: missing BPMN definitions'' None None)
           else
             let errors0 = ([] :: string list);
                 openTags = countMatches CHR ''<'' s;
                 closeTags = countMatches CHR ''>'' s;
                 warnings1 = (if openTags \<noteq> closeTags
                              then [''XML structure may be malformed (unmatched tags)''] else [])
             in Inr \<lparr>isValid = (length errors0 = 0), errors = errors0, warnings = warnings1\<rparr>)"

section \<open>utils/file-loader\<close>

text \<open>
  Numbers in messages: \<^verbatim>\<open>`${n}`\<close> for an integer is its decimal numeral.
\<close>

fun showNat :: "nat \<Rightarrow> string" where
  "showNat n =
     (if n < 10 then [''0123456789'' ! n]
      else showNat (n div 10) @ [''0123456789'' ! (n mod 10)])"

declare showNat.simps [simp del]

definition showInt :: "int \<Rightarrow> string" where
  "showInt i = (if i < 0 then ''-'' @ showNat (nat (- i)) else showNat (nat i))"

text \<open>
  \<^verbatim>\<open>parseInt(s)\<close> with no radix: leading white space is skipped, a sign is read, the
  prefix \<^verbatim>\<open>0x\<close> selects base 16, and the longest run of digits is the value; with no digit
  the result is \<^verbatim>\<open>NaN\<close>, here \<open>None\<close>.
\<close>

definition digitValue :: "char \<Rightarrow> nat option" where
  "digitValue c =
     (let n = (of_char c :: nat)
      in if 48 \<le> n \<and> n \<le> 57 then Some (n - 48)
         else if 65 \<le> n \<and> n \<le> 90 then Some (n - 55)
         else if 97 \<le> n \<and> n \<le> 122 then Some (n - 87)
         else None)"

definition isRadixDigit :: "nat \<Rightarrow> char \<Rightarrow> bool" where
  "isRadixDigit r c = (case digitValue c of Some d \<Rightarrow> d < r | None \<Rightarrow> False)"

definition digitsValue :: "nat \<Rightarrow> string \<Rightarrow> nat" where
  "digitsValue r ds = foldl (\<lambda>acc c. acc * r + (case digitValue c of Some d \<Rightarrow> d | None \<Rightarrow> 0)) 0 ds"

definition parseInt :: "string \<Rightarrow> int option" where
  "parseInt inputString =
     (let s0 = dropWhile isWhiteSpace inputString;
          negative = startsWith s0 ''-'';
          s1 = (if startsWith s0 ''-'' \<or> startsWith s0 ''+'' then drop 1 s0 else s0);
          hex = (startsWith s1 ''0x'' \<or> startsWith s1 ''0X'');
          s2 = (if hex then drop 2 s1 else s1);
          r = (if hex then 16 else 10);
          z = takeWhile (isRadixDigit r) s2
      in if z = [] then None
         else Some (if negative then - int (digitsValue r z) else int (digitsValue r z)))"

text \<open>\<^verbatim>\<open>new TextEncoder().encode(s).length\<close>: the UTF-8 length of code units below 256.\<close>

definition utf8Length :: "string \<Rightarrow> nat" where
  "utf8Length s = sum_list (map (\<lambda>c. if (of_char c :: nat) < 128 then 1 else 2) s)"

record FileLoadOptions =
  timeout :: "int or_undefined option"
  validate :: "bool or_undefined option"
  encoding :: "string or_undefined option"
  maxSize :: "int or_undefined option"
  headers :: "(string \<rightharpoonup> string) or_undefined option"

text \<open>\<^verbatim>\<open>FileLoadOptions & { cacheTtl?: number }\<close>\<close>

record CachedFileLoadOptions = FileLoadOptions +
  cacheTtl :: "int or_undefined option"

text \<open>
  \<^verbatim>\<open>Required<FileLoadOptions>\<close>: the options after the merge over the defaults. Every
  property is there; one that the caller passed as \<^verbatim>\<open>undefined\<close> is \<^verbatim>\<open>undefined\<close> here too.
\<close>

record FileLoadConfig =
  cfg_timeout :: "int or_undefined"
  cfg_validate :: "bool or_undefined"
  cfg_encoding :: "string or_undefined"
  cfg_maxSize :: "int or_undefined"
  cfg_headers :: "(string \<rightharpoonup> string) or_undefined"

definition DEFAULT_FILE_OPTIONS :: FileLoadConfig where
  "DEFAULT_FILE_OPTIONS =
     \<lparr>cfg_timeout = Defined 30000, cfg_validate = Defined True, cfg_encoding = Defined ''utf-8'',
      cfg_maxSize = Defined 10485760, cfg_headers = Defined Map.empty\<rparr>"

text \<open>
  One property of an object spread \<^verbatim>\<open>{ ...defaults, ...options }\<close>: what the options hold
  under it when they have the property, the default otherwise.
\<close>

definition orDefault :: "'a option \<Rightarrow> 'a \<Rightarrow> 'a" where
  "orDefault v d = (case v of Some x \<Rightarrow> x | None \<Rightarrow> d)"

text \<open>\<^verbatim>\<open>{ ...DEFAULT_FILE_OPTIONS, ...options }\<close>\<close>

definition mergeFileOptions :: "FileLoadConfig \<Rightarrow> 'a FileLoadOptions_scheme \<Rightarrow> FileLoadConfig" where
  "mergeFileOptions d options =
     \<lparr>cfg_timeout = orDefault (timeout options) (cfg_timeout d),
      cfg_validate = orDefault (validate options) (cfg_validate d),
      cfg_encoding = orDefault (encoding options) (cfg_encoding d),
      cfg_maxSize = orDefault (maxSize options) (cfg_maxSize d),
      cfg_headers = orDefault (headers options) (cfg_headers d)\<rparr>"

record FileLoadResult =
  content :: string
  size :: nat
  mimeType :: "string option"
  lastModified :: "string option"
  loadTime :: int
  validation :: "ValidationResult option"

text \<open>
  The network layer. A request is answered by a response or rejected with an error (a
  failed connection, the abort at the deadline); reading the body may fail as well.
  Header values are strings or absent; a \<^verbatim>\<open>Date\<close> is kept as the header text it is
  parsed from.
\<close>

record Request =
  url :: string
  requestHeaders :: "string \<rightharpoonup> string"
  deadline :: "int or_undefined"

record Response =
  ok :: bool
  status :: int
  statusText :: string
  contentLengthHeader :: "string option"
  contentTypeHeader :: "string option"
  lastModifiedHeader :: "string option"
  bodyText :: "string + string"

type_synonym Fetch = "Request \<Rightarrow> string + Response"

text \<open>
  The state the loader works on: the module's cache map and, to tell whether the network
  was used, the list of requests sent so far.
\<close>

record CacheEntry =
  result :: FileLoadResult
  timestamp :: int

record World =
  fileCache :: "string \<rightharpoonup> CacheEntry"
  fetchLog :: "Request list"

definition nonEmpty :: "string option \<Rightarrow> string option" where
  "nonEmpty h = (case h of Some s \<Rightarrow> (if s = [] then None else Some s) | None \<Rightarrow> None)"

text \<open>
  \<^verbatim>\<open>n > options.maxSize\<close> and \<^verbatim>\<open>`${options.maxSize}`\<close>: a comparison with \<^verbatim>\<open>undefined\<close> is
  false, and \<^verbatim>\<open>undefined\<close> prints by its name.
\<close>

definition exceeds :: "int \<Rightarrow> int or_undefined \<Rightarrow> bool" where
  "exceeds n limit = (case limit of Defined m \<Rightarrow> m < n | Undefined \<Rightarrow> False)"

definition interpolateInt :: "int or_undefined \<Rightarrow> string" where
  "interpolateInt v = (case v of Defined n \<Rightarrow> showInt n | Undefined \<Rightarrow> ''undefined'')"

text \<open>
  \<^verbatim>\<open>contentLength && parseInt(contentLength) > maxSize\<close>: the declared length, when it is
  there, parses and exceeds the limit.
\<close>

definition declaredTooLarge :: "string option \<Rightarrow> int or_undefined \<Rightarrow> string option" where
  "declaredTooLarge header limit =
     (case nonEmpty header of
        Some contentLength \<Rightarrow>
          (case parseInt contentLength of
             Some n \<Rightarrow> (if exceeds n limit then Some contentLength else None)
           | None \<Rightarrow> None)
      | None \<Rightarrow> None)"

definition readBody :: "Response \<Rightarrow> FileLoadConfig \<Rightarrow> js_error + FileLoadResult" where
  "readBody response options =
     (case bodyText response of
        Inl m \<Rightarrow> Inl (Error m)
      | Inr text \<Rightarrow>
          (let sz = utf8Length text
           in if exceeds (int sz) (cfg_maxSize options) then
                Inl (Error (''File too large: '' @ showNat sz @ '' bytes (max: '' @
                            interpolateInt (cfg_maxSize options) @ '')''))
              else
                Inr \<lparr>content = text, size = sz,
                     mimeType = nonEmpty (contentTypeHeader response),
                     lastModified = nonEmpty (lastModifiedHeader response),
                     loadTime = 0, validation = None\<rparr>))"

text \<open>
  \<open>loadFromUrl\<close>. The request carries the \<^verbatim>\<open>Accept\<close> header overridden by the configured
  headers (spreading \<^verbatim>\<open>undefined\<close> adds nothing) and the delay after which it is aborted.
\<close>

definition loadFromUrl ::
  "Fetch \<Rightarrow> string \<Rightarrow> FileLoadConfig \<Rightarrow> World \<Rightarrow> (js_error + FileLoadResult) \<times> World" where
  "loadFromUrl fetch u options w =
     (let request = \<lparr>url = u,
                      requestHeaders =
                        spread (Map.empty(''Accept'' \<mapsto> ''application/xml, text/xml, text/plain, */*''))
                          (case cfg_headers options of Defined h \<Rightarrow> h | Undefined \<Rightarrow> Map.empty),
                      deadline = cfg_timeout options\<rparr>;
          w' = w\<lparr>fetchLog := fetchLog w @ [request]\<rparr>
      in (case fetch request of
            Inl m \<Rightarrow> Inl (Error m)
          | Inr response \<Rightarrow>
              if \<not> ok response then
                Inl (Error (''HTTP '' @ showInt (status response) @ '': '' @ statusText response))
              else
                (case declaredTooLarge (contentLengthHeader response) (cfg_maxSize options) of
                   Some contentLength \<Rightarrow>
                     Inl (Error (''File too large: '' @ contentLength @ '' bytes (max: '' @
                                 interpolateInt (cfg_maxSize options) @ '')''))
                 | None \<Rightarrow> readBody response options),
          w'))"

text \<open>
  \<open>loadBpmnFile\<close>. The two readings of the clock are arguments: \<open>startTime\<close> on entry and
  \<open>endTime\<close> when the load is done. \<^verbatim>\<open>if (config.validate)\<close> passes for \<^verbatim>\<open>true\<close> only. The
  \<^verbatim>\<open>catch\<close> rethrows a \<open>FileLoadError\<close> and wraps anything else.
\<close>

definition wrapLoadError :: "string \<Rightarrow> js_error \<Rightarrow> js_error" where
  "wrapLoadError path e =
     (if is_FileLoadError e then e
      else FileLoadError (''Failed to load BPMN file: '' @ message e) path (Some e))"

definition loadBpmnFile ::
  "Fetch \<Rightarrow> int \<times> int \<Rightarrow> string \<Rightarrow> 'a FileLoadOptions_scheme \<Rightarrow> World \<Rightarrow>
     (js_error + FileLoadResult) \<times> World" where
  "loadBpmnFile fetch clock path options w =
     (let startTime = fst clock;
          config = mergeFileOptions DEFAULT_FILE_OPTIONS options
      in if path = [] then
           (Inl (FileLoadError ''Invalid file path: must be a non-empty string'' path None), w)
         else
           case loadFromUrl fetch path config w of
             (Inl e, w') \<Rightarrow> (Inl (wrapLoadError path e), w')
           | (Inr res, w') \<Rightarrow>
               if cfg_validate config = Defined True then
                 let v = validateBpmnXml (JsString (content res));
                     res' = res\<lparr>validation := Some v\<rparr>
                 in if \<not> isValid v then
                      (Inl (wrapLoadError path
                              (FileLoadError (''Invalid BPMN content: '' @ join '', '' (errors v))
                                 path None)), w')
                    else (Inr (res'\<lparr>loadTime := snd clock - startTime\<rparr>), w')
               else (Inr (res\<lparr>loadTime := snd clock - startTime\<rparr>), w'))"

text \<open>
  \<open>loadBpmnFileWithCache\<close>. \<open>now\<close> is the clock on entry. \<open>effectiveTtl\<close> is
  \<^verbatim>\<open>options.cacheTtl || 300000\<close>: a \<open>cacheTtl\<close> that is missing, \<^verbatim>\<open>undefined\<close> or zero is
  falsy, and the default is taken for it.
\<close>

definition effectiveTtl :: "int or_undefined option \<Rightarrow> int" where
  "effectiveTtl t =
     (case t of Some (Defined n) \<Rightarrow> (if n \<noteq> 0 then n else 300000) | _ \<Rightarrow> 300000)"

text \<open>The part after the cache check: load fresh content, and cache it when that succeeds.\<close>

definition loadAndCache ::
  "Fetch \<Rightarrow> int \<Rightarrow> int \<times> int \<Rightarrow> string \<Rightarrow> 'a CachedFileLoadOptions_scheme \<Rightarrow> World \<Rightarrow>
     (js_error + FileLoadResult) \<times> World" where
  "loadAndCache fetch now clock path options w =
     (case loadBpmnFile fetch clock path options w of
        (Inl e, w') \<Rightarrow> (Inl e, w')
      | (Inr res, w') \<Rightarrow>
          (Inr res,
           w'\<lparr>fileCache := (fileCache w')(path \<mapsto> \<lparr>result = res, timestamp = now\<rparr>)\<rparr>))"

definition loadBpmnFileWithCache ::
  "Fetch \<Rightarrow> int \<Rightarrow> int \<times> int \<Rightarrow> string \<Rightarrow> 'a CachedFileLoadOptions_scheme \<Rightarrow> World \<Rightarrow>
     (js_error + FileLoadResult) \<times> World" where
  "loadBpmnFileWithCache fetch now clock path options w =
     (let ttl = effectiveTtl (cacheTtl options);
          cached = fileCache w path
      in case cached of
           Some entry \<Rightarrow>
             if now - timestamp entry < ttl then (Inr ((result entry)\<lparr>loadTime := 0\<rparr>), w)
             else loadAndCache fetch now clock path options w
         | None \<Rightarrow> loadAndCache fetch now clock path options w)"

definition clearBpmnFileCache :: "string option \<Rightarrow> World \<Rightarrow> World" where
  "clearBpmnFileCache path w =
     (case nonEmpty path of
        Some p \<Rightarrow> w\<lparr>fileCache := (fileCache w)(p := None)\<rparr>
      | None \<Rightarrow> w\<lparr>fileCache := Map.empty\<rparr>)"

section \<open>theme/ornl-theme: the stylesheet\<close>

definition generateOrnlBpmnStyles :: "BpmnThemeOptions \<Rightarrow> string" where
  \<open>generateOrnlBpmnStyles options =
     (let cssVars = generateOrnlCssVariables options
      in ''
/* ORNL BPMN Theme - Generated Styles */
.bpmn-diagram.ornl-theme {
  '' @ cssVars @ '';
  
  /* Container styling */
  background: var(--ornl-background);
  border: var(--ornl-border-width) solid var(--ornl-secondary);
  border-radius: var(--ornl-border-radius);
  font-family: var(--ornl-font-family);
  font-size: var(--ornl-font-size);
  overflow: hidden;
}

/* BPMN Element Styling */
.bpmn-diagram.ornl-theme .djs-element {
  color: var(--ornl-text);
}

/* Task Elements */
.bpmn-diagram.ornl-theme .djs-element[data-element-id] rect.djs-visual {
  fill: var(--ornl-background);
  stroke: var(--bpmn-task);
  stroke-width: var(--ornl-border-width);
}

/* Start Events */
.bpmn-diagram.ornl-theme .djs-element[data-element-id*="StartEvent"] circle {
  fill: var(--bpmn-start-event);
  stroke: var(--ornl-secondary);
  stroke-width: var(--ornl-border-width);
}

/* End Events */
.bpmn-diagram.ornl-theme .djs-element[data-element-id*="EndEvent"] circle {
  fill: var(--bpmn-end-event);
  stroke: var(--ornl-secondary);
  stroke-width: var(--ornl-border-width);
}

/* Gateways */
.bpmn-diagram.ornl-theme .djs-element[data-element-id*="Gateway"] path {
  fill: var(--ornl-background);
  stroke: var(--bpmn-gateway);
  stroke-width: var(--ornl-border-width);
}

/* Sequence Flows */
.bpmn-diagram.ornl-theme .djs-element[data-element-id*="SequenceFlow"] path {
  stroke: var(--bpmn-sequence-flow);
  stroke-width: var(--ornl-border-width);
  fill: none;
}

/* Text Labels */
.bpmn-diagram.ornl-theme .djs-label {
  font-family: var(--ornl-font-family);
  font-size: var(--ornl-font-size);
  color: var(--ornl-text);
  fill: var(--ornl-text);
}

/* Pools and Lanes */
.bpmn-diagram.ornl-theme .djs-element[data-element-id*="Pool"] rect,
.bpmn-diagram.ornl-theme .djs-element[data-element-id*="Lane"] rect {
  fill: var(--bpmn-pool);
  stroke: var(--bpmn-border);
  stroke-width: var(--ornl-border-width);
}

/* Error States */
.bpmn-diagram.ornl-theme .bpmn-error {
  border-color: var(--ornl-error);
  background-color: rgba(254, 80, 0, 0.1); /* FORGE orange with opacity */
}

/* Loading States */
.bpmn-diagram.ornl-theme .bpmn-loading {
  display: flex;
  align-items: center;
  justify-content: center;
  padding: 2rem;
  color: var(--ornl-text);
}

.bpmn-diagram.ornl-theme .bpmn-loading .spinner {
  width: 20px;
  height: 20px;
  border: 2px solid var(--ornl-secondary);
  border-top: 2px solid var(--ornl-primary);
  border-radius: 50%;
  animation: ornl-spin 1s linear infinite;
  margin-right: 0.5rem;
}

@keyframes ornl-spin {
  0% { transform: rotate(0deg); }
  100% { transform: rotate(360deg); }
}

/* Responsive Design */
@media (max-width: 768px) {
  .bpmn-diagram.ornl-theme {
    font-size: 10px;
  }
}

@media (prefers-reduced-motion: reduce) {
  .bpmn-diagram.ornl-theme .spinner {
    animation: none;
  }
}
'')\<close>

section \<open>core/svg-generator: rendering\<close>

record SvgGenerationOptions =
  theme :: "BpmnThemeOptions or_undefined option"
  width :: "js_number or_undefined option"
  height :: "js_number or_undefined option"
  fitViewport :: "bool or_undefined option"
  zoom :: "js_number or_undefined option"
  minZoom :: "js_number or_undefined option"
  maxZoom :: "js_number or_undefined option"
  additionalCss :: "string or_undefined option"
  includeTheme :: "bool or_undefined option"

text \<open>
  \<^verbatim>\<open>Required<SvgGenerationOptions>\<close>: the options after the merge over the defaults. Every
  property is there; one that the caller passed as \<^verbatim>\<open>undefined\<close> is \<^verbatim>\<open>undefined\<close> here too.
\<close>

record SvgConfig =
  cfg_theme :: "BpmnThemeOptions or_undefined"
  cfg_width :: "js_number or_undefined"
  cfg_height :: "js_number or_undefined"
  cfg_fitViewport :: "bool or_undefined"
  cfg_zoom :: "js_number or_undefined"
  cfg_minZoom :: "js_number or_undefined"
  cfg_maxZoom :: "js_number or_undefined"
  cfg_additionalCss :: "string or_undefined"
  cfg_includeTheme :: "bool or_undefined"

definition DEFAULT_SVG_OPTIONS :: SvgConfig where
  "DEFAULT_SVG_OPTIONS =
     \<lparr>cfg_theme = Defined DEFAULT_ORNL_THEME,
      cfg_width = Defined (Number 800), cfg_height = Defined (Number 600),
      cfg_fitViewport = Defined True, cfg_zoom = Defined (Number 1),
      cfg_minZoom = Defined (Number (2 / 10)), cfg_maxZoom = Defined (Number 4),
      cfg_additionalCss = Defined [], cfg_includeTheme = Defined True\<rparr>"

text \<open>\<^verbatim>\<open>{ ...DEFAULT_SVG_OPTIONS, ...options }\<close>\<close>

definition mergeSvgOptions :: "SvgConfig \<Rightarrow> SvgGenerationOptions \<Rightarrow> SvgConfig" where
  "mergeSvgOptions d options =
     \<lparr>cfg_theme = orDefault (theme options) (cfg_theme d),
      cfg_width = orDefault (width options) (cfg_width d),
      cfg_height = orDefault (height options) (cfg_height d),
      cfg_fitViewport = orDefault (fitViewport options) (cfg_fitViewport d),
      cfg_zoom = orDefault (zoom options) (cfg_zoom d),
      cfg_minZoom = orDefault (minZoom options) (cfg_minZoom d),
      cfg_maxZoom = orDefault (maxZoom options) (cfg_maxZoom d),
      cfg_additionalCss = orDefault (additionalCss options) (cfg_additionalCss d),
      cfg_includeTheme = orDefault (includeTheme options) (cfg_includeTheme d)\<rparr>"

text \<open>
  The result. Its three numbers are declared as numbers; at run time \<open>zoom\<close>, and on the
  placeholder path of the second module \<open>width\<close> and \<open>height\<close>, are the configured
  values as they are, so they can be \<^verbatim>\<open>undefined\<close>.
\<close>

record SvgGenerationResult =
  svg :: string
  width :: "js_number or_undefined"
  height :: "js_number or_undefined"
  zoom :: "js_number or_undefined"
  processingTime :: int
  warnings :: "string list"

text \<open>
  \<open>applyOrnlThemeToSvg\<close>. The third parameter has the default \<^verbatim>\<open>''\<close>, which is taken for
  an argument that is \<^verbatim>\<open>undefined\<close>. The pattern \<^verbatim>\<open>/<svg[^>]*>/\<close> matches when some
  \<^verbatim>\<open><svg\<close> has a \<^verbatim>\<open>>\<close> after it; the style block then goes after the first \<^verbatim>\<open>>\<close> of the
  whole text.
\<close>

fun matchesSvgOpenTag :: "string \<Rightarrow> bool" where
  "matchesSvgOpenTag [] = False"
| "matchesSvgOpenTag (c # cs) =
     ((startsWith (c # cs) ''<svg'' \<and> CHR ''>'' \<in> set (drop 4 (c # cs))) \<or> matchesSvgOpenTag cs)"

definition applyOrnlThemeToSvg ::
  "string \<Rightarrow> BpmnThemeOptions \<Rightarrow> string or_undefined \<Rightarrow> string" where
  "applyOrnlThemeToSvg s themeOptions extra =
     (let extraCss = (case extra of Defined css \<Rightarrow> css | Undefined \<Rightarrow> []);
          ornlCss = generateOrnlBpmnStyles themeOptions;
          completeCss = join [CHR 0x0A] (filter (\<lambda>x. x \<noteq> []) [ornlCss, extraCss]);
          styleTag = ''<style><![CDATA['' @ completeCss @ '']]></style>''
      in if matchesSvgOpenTag s then
           (let insertIndex = length (takeWhile (\<lambda>c. c \<noteq> CHR ''>'') s) + 1
            in take insertIndex s @ [CHR 0x0A] @ styleTag @ [CHR 0x0A] @ drop insertIndex s)
         else styleTag @ [CHR 0x0A] @ s)"

text \<open>
  The platform the generator drives: the simulated DOM and the diagram engine. For one
  call of \<open>generateStaticSVG\<close> it is the record of what each call into it does, at the
  place where the generator makes it: return (a value, where the generator reads one)
  or throw an \<open>Error\<close> with a message. \<open>showNumber\<close> and \<open>showFixed3\<close> stand for the
  printing of a number in a template literal and by \<^verbatim>\<open>toFixed(3)\<close>; the two clock
  readings are those of \<^verbatim>\<open>Date.now()\<close> on entry and before the return. An element of the
  diagram is given by its geometry \<open>(x, y, width, height)\<close>, or \<open>None\<close> when one of the
  four is undefined.
\<close>

record Engine =
  showNumber :: "real \<Rightarrow> string"
  showFixed3 :: "real \<Rightarrow> string"
  clockStart :: int
  clockEnd :: int
  useFallbackEnv :: bool
  importViewerModule :: "string option"
  newJSDOM :: "string option"
  installGlobals :: "string option"
  getContainerElement :: bool
  newViewer :: "string option"
  importXML :: "string option"
  getCanvas :: "string + bool"
  getElementRegistry :: "string option"
  getAllElements :: "string + (real \<times> real \<times> real \<times> real) option list"
  canvasContainer :: "string + bool"
  zoomFitViewport :: "string option"
  zoomCurrent :: "string + real"
  hasSetViewbox :: bool
  setViewbox :: "string option"
  zoomToCurrent :: "string option"
  getContainer :: "string + bool"
  scroll :: "string option"
  zoomToMin :: "string option"
  zoomToMax :: "string option"
  assignZoom :: "string option"
  zoomToDefault :: "string option"
  saveSVG :: "string + string"
  viewbox :: "string + (real \<times> real) option"
  destroyViewer :: "string option"
  closeWindow :: "string option"

text \<open>
  A number in a template literal, where \<^verbatim>\<open>undefined\<close> and \<^verbatim>\<open>NaN\<close> print by their names, and
  \<^verbatim>\<open>toFixed(3)\<close> of a number.
\<close>

definition interpolateNumber :: "Engine \<Rightarrow> js_number or_undefined \<Rightarrow> string" where
  "interpolateNumber E v =
     (case v of
        Undefined \<Rightarrow> ''undefined''
      | Defined NaN \<Rightarrow> ''NaN''
      | Defined (Number x) \<Rightarrow> showNumber E x)"

definition toFixed3 :: "Engine \<Rightarrow> js_number \<Rightarrow> string" where
  "toFixed3 E a = (case a of Number x \<Rightarrow> showFixed3 E x | NaN \<Rightarrow> ''NaN'')"

text \<open>
  What the \<^verbatim>\<open>try\<close> block leaves behind, whether it returns or throws: the warnings
  pushed so far and whether \<open>viewer\<close> and \<open>dom\<close> have been assigned.
\<close>

record RenderState =
  warningsSoFar :: "string list"
  domAssigned :: bool
  viewerAssigned :: bool

text \<open>The inner \<^verbatim>\<open>try\<close> of the first module: fit, read the zoom, clamp it.\<close>

definition fitViewportZoom ::
  "Engine \<Rightarrow> SvgConfig \<Rightarrow> string list \<Rightarrow> string + js_number or_undefined \<times> string list" where
  "fitViewportZoom E config ws =
     (case zoomFitViewport E of
        Some m \<Rightarrow> Inl m
      | None \<Rightarrow>
          (case zoomCurrent E of
             Inl m \<Rightarrow> Inl m
           | Inr currentZoom \<Rightarrow>
               if numLess (Number currentZoom) (toNumber (cfg_minZoom config)) then
                 (case zoomToMin E of
                    Some m \<Rightarrow> Inl m
                  | None \<Rightarrow>
                      Inr (cfg_minZoom config,
                           ws @ [''Zoom constrained to minimum: '' @
                                 interpolateNumber E (cfg_minZoom config)]))
               else if numLess (toNumber (cfg_maxZoom config)) (Number currentZoom) then
                 (case zoomToMax E of
                    Some m \<Rightarrow> Inl m
                  | None \<Rightarrow>
                      Inr (cfg_maxZoom config,
                           ws @ [''Zoom constrained to maximum: '' @
                                 interpolateNumber E (cfg_maxZoom config)]))
               else Inr (Defined (Number currentZoom), ws)))"

text \<open>
  Zoom and viewport of the first module. A failure of the fit is a warning; the zoom to
  the configured value that follows it, and the one of the other branch, are not
  guarded.
\<close>

definition applyZoom ::
  "Engine \<Rightarrow> SvgConfig \<Rightarrow> bool \<Rightarrow> nat \<Rightarrow> string list \<Rightarrow>
     (js_error + js_number or_undefined) \<times> string list" where
  "applyZoom E config canvas n ws =
     (if cfg_fitViewport config = Defined True \<and> n > 0 \<and> canvas then
        (case fitViewportZoom E config ws of
           Inr (finalZoom, ws') \<Rightarrow> (Inr finalZoom, ws')
         | Inl m \<Rightarrow>
             (let ws' = ws @ [''Zoom fit failed, using default: '' @ m]
              in case zoomToDefault E of
                   Some m' \<Rightarrow> (Inl (Error m'), ws')
                 | None \<Rightarrow> (Inr (cfg_zoom config), ws')))
      else if canvas then
        (case zoomToDefault E of
           Some m \<Rightarrow> (Inl (Error m), ws)
         | None \<Rightarrow> (Inr (cfg_zoom config), ws))
      else (Inr (cfg_zoom config), ws))"

text \<open>
  From \<^verbatim>\<open>saveSVG\<close> to the \<^verbatim>\<open>return\<close>, first module. The theme is applied when
  \<^verbatim>\<open>config.includeTheme\<close> is \<^verbatim>\<open>true\<close>, with \<^verbatim>\<open>config.theme || {}\<close>. Without a canvas, or
  when \<^verbatim>\<open>viewbox()\<close> gives nothing, the dimensions are the configured ones.
\<close>

definition exportSvg ::
  "Engine \<Rightarrow> string \<Rightarrow> SvgConfig \<Rightarrow> bool \<Rightarrow> js_number or_undefined \<Rightarrow> string list \<Rightarrow>
     js_error + SvgGenerationResult" where
  "exportSvg E xml config canvas finalZoom ws =
     (case saveSVG E of
        Inl m \<Rightarrow> Inl (SvgGenerationError (''Failed to generate SVG: '' @ m) (Some xml) (Some (Error m)))
      | Inr raw \<Rightarrow>
          (let themed = (if cfg_includeTheme config = Defined True
                         then applyOrnlThemeToSvg raw
                                (case cfg_theme config of Defined t \<Rightarrow> t | Undefined \<Rightarrow> Map.empty)
                                (cfg_additionalCss config)
                         else raw)
           in case (if canvas then viewbox E else Inr None) of
                Inl m \<Rightarrow> Inl (Error m)
              | Inr vb \<Rightarrow>
                  (let outer = (case vb of
                                  Some (w, h) \<Rightarrow> (Number w, Number h)
                                | None \<Rightarrow> (toNumber (cfg_width config), toNumber (cfg_height config)))
                   in Inr \<lparr>svg = themed,
                           width = Defined (mathRound (fst outer)),
                           height = Defined (mathRound (snd outer)),
                           zoom = finalZoom,
                           processingTime = clockEnd E - clockStart E,
                           warnings = ws\<rparr>)))"

text \<open>The \<^verbatim>\<open>try\<close> block of the first module, from the check for an empty diagram on.\<close>

definition zoomAndExport ::
  "Engine \<Rightarrow> string \<Rightarrow> SvgConfig \<Rightarrow> bool \<Rightarrow> (real \<times> real \<times> real \<times> real) option list \<Rightarrow> RenderState \<Rightarrow>
     (js_error + SvgGenerationResult) \<times> RenderState" where
  "zoomAndExport E xml config canvas rootElements st =
     (let ws1 = (if length rootElements = 0
                 then [''BPMN diagram appears to be empty''] else [])
      in case applyZoom E config canvas (length rootElements) ws1 of
           (Inl e, ws2) \<Rightarrow> (Inl e, st\<lparr>warningsSoFar := ws2\<rparr>)
         | (Inr finalZoom, ws2) \<Rightarrow>
             (exportSvg E xml config canvas finalZoom ws2, st\<lparr>warningsSoFar := ws2\<rparr>))"

text \<open>The \<^verbatim>\<open>try\<close> block of the first module.\<close>

definition renderBody ::
  "Engine \<Rightarrow> string \<Rightarrow> SvgConfig \<Rightarrow> (js_error + SvgGenerationResult) \<times> RenderState" where
  "renderBody E xml config =
     (let st0 = \<lparr>warningsSoFar = [], domAssigned = False, viewerAssigned = False\<rparr>
      in case newJSDOM E of
           Some m \<Rightarrow> (Inl (Error m), st0)
         | None \<Rightarrow>
             (let st1 = st0\<lparr>domAssigned := True\<rparr>
              in case installGlobals E of
                   Some m \<Rightarrow> (Inl (Error m), st1)
                 | None \<Rightarrow>
                 if \<not> getContainerElement E then
                   (Inl (SvgGenerationError ''Failed to create container element'' None None), st1)
                 else
                   (case newViewer E of
                      Some m \<Rightarrow> (Inl (Error m), st1)
                    | None \<Rightarrow>
                        (let st2 = st1\<lparr>viewerAssigned := True\<rparr>
                         in case importXML E of
                              Some m \<Rightarrow>
                                (Inl (SvgGenerationError (''Failed to import BPMN XML: '' @ m)
                                        (Some xml) (Some (Error m))), st2)
                            | None \<Rightarrow>
                                (case getCanvas E of
                                   Inl m \<Rightarrow> (Inl (Error m), st2)
                                 | Inr canvas \<Rightarrow>
                                     (case getElementRegistry E of
                                        Some m \<Rightarrow> (Inl (Error m), st2)
                                      | None \<Rightarrow>
                                          (case getAllElements E of
                                             Inl m \<Rightarrow> (Inl (Error m), st2)
                                           | Inr rootElements \<Rightarrow>
                                               zoomAndExport E xml config canvas rootElements st2)))))))"

text \<open>
  The \<^verbatim>\<open>catch\<close> and the \<^verbatim>\<open>finally\<close> of \<open>generateStaticSVG\<close>, the same text in both
  modules. The handler rethrows an \<open>SvgGenerationError\<close> and wraps anything else. The
  cleanup tears down what was set up and pushes a warning for a teardown that throws.
\<close>

definition wrapSvgError :: "string \<Rightarrow> js_error \<Rightarrow> js_error" where
  "wrapSvgError xml e =
     (if is_SvgGenerationError e then e
      else SvgGenerationError (''Unexpected error during SVG generation: '' @ message e)
             (Some xml) (Some e))"

definition cleanup :: "Engine \<Rightarrow> RenderState \<Rightarrow> string list" where
  "cleanup E st =
     (let ws1 = (if viewerAssigned st then
                   (case destroyViewer E of
                      Some m \<Rightarrow> warningsSoFar st @ [''Viewer cleanup warning: '' @ m]
                    | None \<Rightarrow> warningsSoFar st)
                 else warningsSoFar st)
      in if domAssigned st then
           (case closeWindow E of
              Some m \<Rightarrow> ws1 @ [''DOM cleanup warning: '' @ m]
            | None \<Rightarrow> ws1)
         else ws1)"

text \<open>
  An outcome of the \<^verbatim>\<open>try\<close> block, through the handler and the cleanup. The result
  object holds the \<open>warnings\<close> array itself, not a copy, so what the cleanup pushes shows
  in the result the caller receives. The second component is the array at the end, which
  the caller sees only through a result.
\<close>

definition catchFinally ::
  "Engine \<Rightarrow> string \<Rightarrow> (js_error + SvgGenerationResult) \<times> RenderState \<Rightarrow>
     (js_error + SvgGenerationResult) \<times> string list" where
  "catchFinally E xml run =
     (let ws = cleanup E (snd run)
      in case fst run of
           Inl e \<Rightarrow> (Inl (wrapSvgError xml e), ws)
         | Inr r \<Rightarrow> (Inr (r\<lparr>warnings := ws\<rparr>), ws))"

text \<open>\<open>generateStaticSVG\<close> of \<^verbatim>\<open>src/core/svg-generator.ts\<close>.\<close>

definition generateStaticSVG ::
  "Engine \<Rightarrow> js_value \<Rightarrow> SvgGenerationOptions \<Rightarrow> (js_error + SvgGenerationResult) \<times> string list" where
  "generateStaticSVG E v options =
     (let config = mergeSvgOptions DEFAULT_SVG_OPTIONS options
      in if \<not> truthy v \<or> typeof v \<noteq> ''string'' then
           (Inl (SvgGenerationError ''Invalid BPMN XML: must be a non-empty string'' None None), [])
         else
           (let xml = theString v
            in if \<not> str_includes xml ''<bpmn'' \<and> \<not> str_includes xml ''<definitions'' then
                 (Inl (SvgGenerationError ''Invalid BPMN XML: missing BPMN definitions'' (Some xml) None), [])
               else catchFinally E xml (renderBody E xml config)))"

section \<open>The second generator module\<close>

text \<open>
  The repository holds a second, longer version of the generator, which loads
  \<^verbatim>\<open>bpmn-js/lib/Viewer.js\<close>. It can return a placeholder drawing, computes a bounding box
  of the diagram, replaces the canvas's \<^verbatim>\<open>viewbox\<close> method by one that never throws, and
  guards more of the zoom calls. Its handler and cleanup are those of the first module.
  The simulated SVG geometry methods it installs on the DOM only assign properties and
  are not part of the model. Its quotients are taken in the reals, so a bounding box of
  width or height zero is outside the model.
\<close>

definition DEFAULT_SVG_OPTIONS2 :: SvgConfig where
  "DEFAULT_SVG_OPTIONS2 =
     \<lparr>cfg_theme = Defined DEFAULT_ORNL_THEME,
      cfg_width = Defined (Number 1200), cfg_height = Defined (Number 800),
      cfg_fitViewport = Defined True, cfg_zoom = Defined (Number 1),
      cfg_minZoom = Defined (Number (2 / 10)), cfg_maxZoom = Defined (Number 2),
      cfg_additionalCss = Defined [], cfg_includeTheme = Defined True\<rparr>"

definition generateFallbackSvg :: "Engine \<Rightarrow> SvgConfig \<Rightarrow> SvgGenerationResult" where
  \<open>generateFallbackSvg E config =
     (let fallbackSvg =
     ''
    <svg xmlns="http://www.w3.org/2000/svg" 
         width="'' @
     interpolateNumber E (cfg_width config) @
     ''" 
         height="'' @
     interpolateNumber E (cfg_height config) @
     ''"
         viewBox="0 0 '' @
     interpolateNumber E (cfg_width config) @
     '' '' @
     interpolateNumber E (cfg_height config) @
     ''"
         class="bpmn-diagram ornl-theme">
      <defs>
        <style>
          .bpmn-fallback { 
            font-family: 'Arial', sans-serif; 
            text-anchor: middle;
          }
          .title { font-size: 18px; font-weight: bold; fill: #00662C; }
          .message { font-size: 14px; fill: #373A36; }
          .border { 
            fill: none; 
            stroke: #00662C; 
            stroke-width: 2; 
            stroke-dasharray: 5,5;
          }
        </style>
      </defs>
      <rect class="border" x="10" y="10" width="'' @
     interpolateNumber E (Defined (arith (-) (toNumber (cfg_width config)) (Number 20))) @
     ''" height="'' @
     interpolateNumber E (Defined (arith (-) (toNumber (cfg_height config)) (Number 20))) @
     ''" rx="5"/>
      <text class="bpmn-fallback title" x="'' @
     interpolateNumber E (Defined (arith (/) (toNumber (cfg_width config)) (Number 2))) @
     ''" y="'' @
     interpolateNumber E
       (Defined (arith (-) (arith (/) (toNumber (cfg_height config)) (Number 2)) (Number 20))) @
     ''">
        BPMN Diagram
      </text>
      <text class="bpmn-fallback message" x="'' @
     interpolateNumber E (Defined (arith (/) (toNumber (cfg_width config)) (Number 2))) @
     ''" y="'' @
     interpolateNumber E
       (Defined (arith (+) (arith (/) (toNumber (cfg_height config)) (Number 2)) (Number 10))) @
     ''">
        (Rendering temporarily unavailable)
      </text>
    </svg>
  ''
      in \<lparr>svg = fallbackSvg, width = cfg_width config, height = cfg_height config,
          zoom = Defined (Number 1),
          processingTime = 1,
          warnings = [''Used fallback SVG due to module import issues'']\<rparr>)\<close>

text \<open>
  The bounding box of the elements that have a geometry, as \<open>(minX, minY, maxX, maxY)\<close>;
  \<open>None\<close> while \<open>minX\<close> is still \<^verbatim>\<open>Infinity\<close>. With the padding of 50 it is the
  \<open>optimalBounds\<close> \<open>(x, y, width, height)\<close>.
\<close>

definition extendBox ::
  "(real \<times> real \<times> real \<times> real) option \<Rightarrow> (real \<times> real \<times> real \<times> real) option \<Rightarrow>
     (real \<times> real \<times> real \<times> real) option" where
  "extendBox acc element =
     (case element of
        None \<Rightarrow> acc
      | Some (x, y, w, h) \<Rightarrow>
          (case acc of
             None \<Rightarrow> Some (x, y, x + w, y + h)
           | Some (minX, minY, maxX, maxY) \<Rightarrow>
               Some (min minX x, min minY y, max maxX (x + w), max maxY (y + h))))"

definition optimalBoundsOf ::
  "(real \<times> real \<times> real \<times> real) option list \<Rightarrow> (real \<times> real \<times> real \<times> real) option" where
  "optimalBoundsOf rootElements =
     (case foldl extendBox None rootElements of
        None \<Rightarrow> None
      | Some (minX, minY, maxX, maxY) \<Rightarrow>
          (let padding = 50
           in Some (minX - padding, minY - padding,
                    (maxX - minX) + (padding * 2), (maxY - minY) + (padding * 2))))"

text \<open>The replacement for \<^verbatim>\<open>canvas.viewbox\<close>: the outer dimensions it reports.\<close>

definition patchedViewbox ::
  "Engine \<Rightarrow> SvgConfig \<Rightarrow> (real \<times> real \<times> real \<times> real) option \<Rightarrow>
     js_number or_undefined \<times> js_number or_undefined" where
  "patchedViewbox E config optimalBounds =
     (case viewbox E of
        Inr (Some outer) \<Rightarrow>
          (case optimalBounds of
             Some (bx, by, bw, bh) \<Rightarrow>
               (Defined (arith max (toNumber (cfg_width config)) (Number bw)),
                Defined (arith max (toNumber (cfg_height config)) (Number bh)))
           | None \<Rightarrow> (cfg_width config, cfg_height config))
      | _ \<Rightarrow>
          (case optimalBounds of
             Some (bx, by, bw, bh) \<Rightarrow> (Defined (Number bw), Defined (Number bh))
           | None \<Rightarrow> (cfg_width config, cfg_height config)))"

text \<open>The centring of the viewport, in its own \<^verbatim>\<open>try\<close>: it ends in a warning either way.\<close>

definition centerViewport ::
  "Engine \<Rightarrow> SvgConfig \<Rightarrow> real \<times> real \<times> real \<times> real \<Rightarrow> real \<Rightarrow> string list \<Rightarrow> string list" where
  "centerViewport E config optimalBounds currentZoom ws =
     (case optimalBounds of (bx, by, bw, bh) \<Rightarrow>
        (let centerX = bx + bw / 2;
             centerY = by + bh / 2;
             failed = (\<lambda>m. ws @ [''Viewbox centering failed: '' @ m])
         in if hasSetViewbox E then
              (case setViewbox E of
                 Some m \<Rightarrow> failed m
               | None \<Rightarrow>
                   ws @ [''Applied setViewbox centering: center('' @ showNumber E centerX @ '', '' @
                         showNumber E centerY @ ''), zoom: '' @ showNumber E currentZoom])
            else
              (case zoomToCurrent E of
                 Some m \<Rightarrow> failed m
               | None \<Rightarrow>
                   (case getContainer E of
                      Inl m \<Rightarrow> failed m
                    | Inr container \<Rightarrow>
                        if container then
                          (let dx = arith (-) (Number centerX)
                                      (arith (/) (toNumber (cfg_width config)) (Number 2));
                               dy = arith (-) (Number centerY)
                                      (arith (/) (toNumber (cfg_height config)) (Number 2))
                           in case scroll E of
                                Some m \<Rightarrow> failed m
                              | None \<Rightarrow>
                                  ws @ [''Applied scroll centering: scroll('' @
                                        interpolateNumber E (Defined (negate dx)) @ '', '' @
                                        interpolateNumber E (Defined (negate dy)) @ ''), zoom: '' @
                                        showNumber E currentZoom])
                        else ws))))"

text \<open>The \<^verbatim>\<open>try\<close> around the matrix operations: fit, centre, clamp.\<close>

definition fitViewportZoom2 ::
  "Engine \<Rightarrow> SvgConfig \<Rightarrow> (real \<times> real \<times> real \<times> real) option \<Rightarrow> string list \<Rightarrow>
     (string + js_number or_undefined) \<times> string list" where
  "fitViewportZoom2 E config optimalBounds ws =
     (case zoomFitViewport E of
        Some m \<Rightarrow> (Inl m, ws)
      | None \<Rightarrow>
          (case zoomCurrent E of
             Inl m \<Rightarrow> (Inl m, ws)
           | Inr currentZoom \<Rightarrow>
               (let ws1 = (case optimalBounds of
                             Some b \<Rightarrow>
                               if currentZoom \<noteq> 0 then centerViewport E config b currentZoom ws
                               else ws
                           | None \<Rightarrow> ws)
                in if numLess (Number currentZoom) (toNumber (cfg_minZoom config)) then
                     (case zoomToMin E of
                        Some m \<Rightarrow> (Inl m, ws1)
                      | None \<Rightarrow>
                          (Inr (cfg_minZoom config),
                           ws1 @ [''Zoom constrained to minimum: '' @
                                  interpolateNumber E (cfg_minZoom config)]))
                   else if numLess (toNumber (cfg_maxZoom config)) (Number currentZoom) then
                     (case zoomToMax E of
                        Some m \<Rightarrow> (Inl m, ws1)
                      | None \<Rightarrow>
                          (Inr (cfg_maxZoom config),
                           ws1 @ [''Zoom constrained to maximum: '' @
                                  interpolateNumber E (cfg_maxZoom config)]))
                   else (Inr (Defined (Number currentZoom)), ws1))))"

text \<open>Its handler: a zoom computed from the bounding box, set on the canvas directly.\<close>

definition calculatedZoom ::
  "Engine \<Rightarrow> SvgConfig \<Rightarrow> (real \<times> real \<times> real \<times> real) option \<Rightarrow> string \<Rightarrow> string list \<Rightarrow>
     js_number or_undefined \<times> string list" where
  "calculatedZoom E config optimalBounds errorMessage ws =
     (let ws1 = ws @ [''Matrix operations unavailable in headless mode: '' @ errorMessage]
      in case optimalBounds of
           Some (bx, by, bw, bh) \<Rightarrow>
             (let scaleX = arith (/) (toNumber (cfg_width config)) (Number bw);
                  scaleY = arith (/) (toNumber (cfg_height config)) (Number bh);
                  z0 = arith min scaleX (arith min scaleY (toNumber (cfg_maxZoom config)));
                  z = arith max z0 (toNumber (cfg_minZoom config));
                  ws2 = ws1 @ [''Using calculated zoom: '' @ toFixed3 E z]
              in case assignZoom E of
                   Some m \<Rightarrow> (cfg_zoom config, ws2 @ [''Direct zoom failed: '' @ m])
                 | None \<Rightarrow> (Defined z, ws2))
         | None \<Rightarrow> (cfg_zoom config, ws1))"

text \<open>Zoom and viewport of the second module.\<close>

definition applyZoom2 ::
  "Engine \<Rightarrow> SvgConfig \<Rightarrow> bool \<Rightarrow> nat \<Rightarrow> (real \<times> real \<times> real \<times> real) option \<Rightarrow> string list \<Rightarrow>
     (js_error + js_number or_undefined) \<times> string list" where
  "applyZoom2 E config canvas n optimalBounds ws =
     (if cfg_fitViewport config = Defined True \<and> n > 0 \<and> canvas then
        (case (case optimalBounds of
                 Some b \<Rightarrow> (case canvasContainer E of Inl m \<Rightarrow> Some m | Inr c \<Rightarrow> None)
               | None \<Rightarrow> None) of
           Some m \<Rightarrow>
             (let ws' = ws @ [''Zoom fit failed, using default: '' @ m]
              in case zoomToDefault E of
                   Some m' \<Rightarrow> (Inl (Error m'), ws')
                 | None \<Rightarrow> (Inr (cfg_zoom config), ws'))
         | None \<Rightarrow>
             (case fitViewportZoom2 E config optimalBounds ws of
                (Inr finalZoom, ws') \<Rightarrow> (Inr finalZoom, ws')
              | (Inl m, ws') \<Rightarrow>
                  (case calculatedZoom E config optimalBounds m ws' of
                     (finalZoom, ws'') \<Rightarrow> (Inr finalZoom, ws''))))
      else if canvas then
        (case zoomToDefault E of
           Some m \<Rightarrow> (Inr (cfg_zoom config), ws @ [''Basic zoom failed: '' @ m])
         | None \<Rightarrow> (Inr (cfg_zoom config), ws))
      else (Inr (cfg_zoom config), ws))"

text \<open>
  From \<^verbatim>\<open>saveSVG\<close> to the \<^verbatim>\<open>return\<close>, second module. \<open>addElementTransforms\<close> rewrites
  the SVG text with regular expressions and a table of element positions; no statement
  below is about the text, and the function is a parameter.
\<close>

definition exportSvg2 ::
  "(string \<Rightarrow> real \<times> real \<times> real \<times> real \<Rightarrow> string) \<Rightarrow> Engine \<Rightarrow> string \<Rightarrow> SvgConfig \<Rightarrow> bool \<Rightarrow>
     (real \<times> real \<times> real \<times> real) option \<Rightarrow> js_number or_undefined \<Rightarrow> string list \<Rightarrow>
     (js_error + SvgGenerationResult) \<times> string list" where
  "exportSvg2 addElementTransforms E xml config canvas optimalBounds finalZoom ws =
     (case saveSVG E of
        Inl m \<Rightarrow>
          (Inl (SvgGenerationError (''Failed to generate SVG: '' @ m) (Some xml) (Some (Error m))), ws)
      | Inr raw \<Rightarrow>
          (let positioned = (case optimalBounds of
                               Some b \<Rightarrow> addElementTransforms raw b
                             | None \<Rightarrow> raw);
               ws1 = (case optimalBounds of
                        Some b \<Rightarrow> ws @ [''Added element transforms for positioning'']
                      | None \<Rightarrow> ws);
               themed = (if cfg_includeTheme config = Defined True
                         then applyOrnlThemeToSvg positioned
                                (case cfg_theme config of Defined t \<Rightarrow> t | Undefined \<Rightarrow> Map.empty)
                                (cfg_additionalCss config)
                         else positioned);
               outer = (if canvas then patchedViewbox E config optimalBounds
                        else (cfg_width config, cfg_height config))
           in (Inr \<lparr>svg = themed,
                    width = Defined (mathRound (toNumber (fst outer))),
                    height = Defined (mathRound (toNumber (snd outer))),
                    zoom = finalZoom,
                    processingTime = clockEnd E - clockStart E,
                    warnings = ws1\<rparr>, ws1)))"

text \<open>The \<^verbatim>\<open>try\<close> block of the second module, from the bounding box on.\<close>

definition zoomAndExport2 ::
  "(string \<Rightarrow> real \<times> real \<times> real \<times> real \<Rightarrow> string) \<Rightarrow> Engine \<Rightarrow> string \<Rightarrow> SvgConfig \<Rightarrow> bool \<Rightarrow>
     (real \<times> real \<times> real \<times> real) option list \<Rightarrow> RenderState \<Rightarrow>
     (js_error + SvgGenerationResult) \<times> RenderState" where
  "zoomAndExport2 addElementTransforms E xml config canvas rootElements st =
     (let optimalBounds = (if length rootElements > 0
                           then optimalBoundsOf rootElements else None);
          ws1 = (if length rootElements = 0
                 then [''BPMN diagram appears to be empty''] else [])
      in case applyZoom2 E config canvas (length rootElements) optimalBounds ws1 of
           (Inl e, ws2) \<Rightarrow> (Inl e, st\<lparr>warningsSoFar := ws2\<rparr>)
         | (Inr finalZoom, ws2) \<Rightarrow>
             (case exportSvg2 addElementTransforms E xml config canvas optimalBounds finalZoom ws2 of
                (out, ws3) \<Rightarrow> (out, st\<lparr>warningsSoFar := ws3\<rparr>)))"

text \<open>The \<^verbatim>\<open>try\<close> block of the second module.\<close>

definition renderBody2 ::
  "(string \<Rightarrow> real \<times> real \<times> real \<times> real \<Rightarrow> string) \<Rightarrow> Engine \<Rightarrow> string \<Rightarrow> SvgConfig \<Rightarrow>
     (js_error + SvgGenerationResult) \<times> RenderState" where
  "renderBody2 addElementTransforms E xml config =
     (let st0 = \<lparr>warningsSoFar = [], domAssigned = False, viewerAssigned = False\<rparr>
      in case newJSDOM E of
           Some m \<Rightarrow> (Inl (Error m), st0)
         | None \<Rightarrow>
             (let st1 = st0\<lparr>domAssigned := True\<rparr>
              in case installGlobals E of
                   Some m \<Rightarrow> (Inl (Error m), st1)
                 | None \<Rightarrow>
                 if \<not> getContainerElement E then
                   (Inl (SvgGenerationError ''Failed to create container element'' None None), st1)
                 else
                   (case newViewer E of
                      Some m \<Rightarrow> (Inl (Error m), st1)
                    | None \<Rightarrow>
                        (let st2 = st1\<lparr>viewerAssigned := True\<rparr>
                         in case importXML E of
                              Some m \<Rightarrow>
                                (Inl (SvgGenerationError (''Failed to import BPMN XML: '' @ m)
                                        (Some xml) (Some (Error m))), st2)
                            | None \<Rightarrow>
                                (case getCanvas E of
                                   Inl m \<Rightarrow> (Inl (Error m), st2)
                                 | Inr canvas \<Rightarrow>
                                     (case getElementRegistry E of
                                        Some m \<Rightarrow> (Inl (Error m), st2)
                                      | None \<Rightarrow>
                                          (case getAllElements E of
                                             Inl m \<Rightarrow> (Inl (Error m), st2)
                                           | Inr rootElements \<Rightarrow>
                                               zoomAndExport2 addElementTransforms E xml config canvas
                                                 rootElements st2)))))))"

text \<open>
  \<open>generateStaticSVG\<close> of the second module. The placeholder is returned before the
  \<^verbatim>\<open>try\<close> is entered, with its own list of warnings.
\<close>

definition generateStaticSVG2 ::
  "(string \<Rightarrow> real \<times> real \<times> real \<times> real \<Rightarrow> string) \<Rightarrow> Engine \<Rightarrow> js_value \<Rightarrow> SvgGenerationOptions \<Rightarrow>
     (js_error + SvgGenerationResult) \<times> string list" where
  "generateStaticSVG2 addElementTransforms E v options =
     (let config = mergeSvgOptions DEFAULT_SVG_OPTIONS2 options
      in if \<not> truthy v \<or> typeof v \<noteq> ''string'' then
           (Inl (SvgGenerationError ''Invalid BPMN XML: must be a non-empty string'' None None), [])
         else
           (let xml = theString v
            in if \<not> str_includes xml ''<bpmn'' \<and> \<not> str_includes xml ''<definitions'' then
                 (Inl (SvgGenerationError ''Invalid BPMN XML: missing BPMN definitions'' (Some xml) None), [])
               else if useFallbackEnv E then
                 (Inr (generateFallbackSvg E config), [])
               else
                 (case importViewerModule E of
                    Some m \<Rightarrow> (Inr (generateFallbackSvg E config), [])
                  | None \<Rightarrow>
                      catchFinally E xml (renderBody2 addElementTransforms E xml config))))"

section \<open>Vocabulary of the statements\<close>

text \<open>
  A run of the engine with a clean teardown, and the warnings the cleanup pushes when the
  teardown calls throw.
\<close>

definition cleanTeardown :: "Engine \<Rightarrow> Engine" where
  "cleanTeardown E = E\<lparr>destroyViewer := None, closeWindow := None\<rparr>"

definition teardownWarnings :: "Engine \<Rightarrow> string list" where
  "teardownWarnings E =
     (case destroyViewer E of Some m \<Rightarrow> [''Viewer cleanup warning: '' @ m] | None \<Rightarrow> []) @
     (case closeWindow E of Some m \<Rightarrow> [''DOM cleanup warning: '' @ m] | None \<Rightarrow> [])"


section \<open>Sample inputs\<close>

text \<open>
  A small document that passes the validation, a network that serves it and one that
  fails as the mock of the test setup does, a run of the engine in which every call
  succeeds, and the states of the loader before and after a first load at time \<open>now\<close>.
\<close>

definition sampleXml :: string where
  \<open>sampleXml = ''<bpmn:definitions xmlns:bpmn="m"><bpmn:process/></bpmn:definitions>''\<close>

definition sampleFetch :: Fetch where
  "sampleFetch request =
     Inr \<lparr>ok = True, status = 200, statusText = ''OK'', contentLengthHeader = Some ''67'',
          contentTypeHeader = Some ''application/xml'', lastModifiedHeader = None,
          bodyText = Inr sampleXml\<rparr>"

definition failingFetch :: Fetch where
  "failingFetch request = Inl ''Fetch not available''"

definition noOptions :: CachedFileLoadOptions where
  "noOptions = \<lparr>timeout = None, validate = None, encoding = None, maxSize = None,
                 headers = None, cacheTtl = None\<rparr>"

definition zeroTtlOptions :: CachedFileLoadOptions where
  "zeroTtlOptions = noOptions\<lparr>cacheTtl := Some (Defined 0)\<rparr>"

definition emptyWorld :: World where
  "emptyWorld = \<lparr>fileCache = Map.empty, fetchLog = []\<rparr>"

definition sampleResult :: FileLoadResult where
  "sampleResult =
     \<lparr>content = sampleXml, size = 67, mimeType = Some ''application/xml'', lastModified = None,
      loadTime = 5, validation = Some \<lparr>isValid = True, errors = [], warnings = []\<rparr>\<rparr>"

definition sampleRequest :: Request where
  "sampleRequest =
     \<lparr>url = ''process.bpmn'',
      requestHeaders = Map.empty(''Accept'' \<mapsto> ''application/xml, text/xml, text/plain, */*''),
      deadline = Defined 30000\<rparr>"

definition loadedWorld :: "int \<Rightarrow> World" where
  "loadedWorld now =
     \<lparr>fileCache = Map.empty(''process.bpmn'' \<mapsto> \<lparr>result = sampleResult, timestamp = now\<rparr>),
      fetchLog = [sampleRequest]\<rparr>"

definition sampleEngine :: Engine where
  "sampleEngine =
     \<lparr>showNumber = (\<lambda>x. ''#''), showFixed3 = (\<lambda>x. ''#''), clockStart = 1000, clockEnd = 1042,
      useFallbackEnv = False, importViewerModule = None, newJSDOM = None,
      installGlobals = None, getContainerElement = True, newViewer = None, importXML = None,
      getCanvas = Inr True, getElementRegistry = None,
      getAllElements = Inr [Some (100, 80, 100, 80)], canvasContainer = Inr True,
      zoomFitViewport = None, zoomCurrent = Inr 1, hasSetViewbox = True, setViewbox = None,
      zoomToCurrent = None, getContainer = Inr True, scroll = None, zoomToMin = None,
      zoomToMax = None, assignZoom = None, zoomToDefault = None,
      saveSVG = Inr ''<svg></svg>'', viewbox = Inr (Some (800, 600)),
      destroyViewer = None, closeWindow = None\<rparr>"

definition plainOptions :: SvgGenerationOptions where
  "plainOptions =
     \<lparr>theme = None, width = None, height = None, fitViewport = None, zoom = None,
      minZoom = None, maxZoom = None, additionalCss = None, includeTheme = Some (Defined False)\<rparr>"

section \<open>The palette and the semantic mapping\<close>

lemma ornl_colors_hex: "hexColorRegex (ORNL_COLORS k)"
  by (cases k) (simp_all add: isHexDigit_def)

lemma ornl_accents_hex: "hexColorRegex (ORNL_ACCENTS a)"
  by (cases a) (simp_all add: isHexDigit_def)

lemma semantic_from_palette:
  "(\<exists>k. BPMN_SEMANTIC_COLORS e = ORNL_COLORS k) \<or> (\<exists>a. BPMN_SEMANTIC_COLORS e = ORNL_ACCENTS a)"
  by (cases e) (simp_all only: BPMN_SEMANTIC_COLORS.simps, blast+)

text \<open>
  C8. The semantic colour of a task is the primary palette colour, and the colours of an
  error and of an end event are one and the same accent, Forge orange. Every semantic
  colour is an entry of the palette or of the accents.
\<close>

theorem semantic_colors_derived:
  "BPMN_SEMANTIC_COLORS TASK = ORNL_COLORS PRIMARY \<and>
   BPMN_SEMANTIC_COLORS ERROR = ORNL_ACCENTS FORGE \<and>
   BPMN_SEMANTIC_COLORS END_EVENT = ORNL_ACCENTS FORGE \<and>
   BPMN_SEMANTIC_COLORS ERROR = BPMN_SEMANTIC_COLORS END_EVENT \<and>
   BPMN_SEMANTIC_COLORS TASK = ''#00662C'' \<and>
   BPMN_SEMANTIC_COLORS END_EVENT = ''#FE5000'' \<and>
   (\<forall>e. (\<exists>k. BPMN_SEMANTIC_COLORS e = ORNL_COLORS k) \<or>
        (\<exists>a. BPMN_SEMANTIC_COLORS e = ORNL_ACCENTS a))"
  using semantic_from_palette by simp

text \<open>
  C9. Each palette and accent token has its fixed literal value (the primary colour is
  \<^verbatim>\<open>#00662C\<close>), and every one of the values is a hash sign followed by six hexadecimal
  digits.
\<close>

theorem palette_literals_hex:
  "ORNL_COLORS PRIMARY = ''#00662C'' \<and> ORNL_COLORS SECONDARY = ''#00454D'' \<and>
   ORNL_COLORS NEUTRAL = ''#DBDCDB'' \<and> ORNL_COLORS TEXT_PRIMARY = ''#373A36'' \<and>
   ORNL_COLORS WHITE = ''#FFFFFF'' \<and> ORNL_COLORS BLACK = ''#000000'' \<and>
   ORNL_ACCENTS FORGE = ''#FE5000'' \<and> ORNL_ACCENTS SPARK = ''#F5B800'' \<and>
   ORNL_ACCENTS PLASMA = ''#0077C8'' \<and> ORNL_ACCENTS PULSAR = ''#702F8A'' \<and>
   (\<forall>k. hexColorRegex (ORNL_COLORS k)) \<and> (\<forall>a. hexColorRegex (ORNL_ACCENTS a))"
  using ornl_colors_hex ornl_accents_hex by simp

section \<open>Strings\<close>

lemma startsWith_prefix: "startsWith s p = prefix p s"
  by (induction s p rule: startsWith.induct) auto

lemma str_includes_sublist: "str_includes s sub = sublist sub s"
  by (induction s) (simp_all add: startsWith_prefix sublist_Cons_right)

section \<open>The CSS variables follow the options\<close>

lemma spread_override:
  "spread d opts f = (case opts f of Some v \<Rightarrow> Some v | None \<Rightarrow> d f)"
  by (simp add: spread_def map_add_def)

lemma getProperty_spread:
  "getProperty (spread d opts) f = (case opts f of Some v \<Rightarrow> v | None \<Rightarrow> getProperty d f)"
  by (simp add: getProperty_def spread_override split: option.splits)

lemma cssDeclarations_by_field:
  "cssDeclarations merged =
     map (\<lambda>g. cssVariableName g @ '': '' @ interpolate (getProperty merged g))
       [primaryColor, secondaryColor, backgroundColor, textColor, errorColor,
        fontFamily, fontSize, borderWidth, borderRadius] @
     [''--bpmn-start-event: #F5B800'', ''--bpmn-end-event: #FE5000'', ''--bpmn-task: #00662C'',
      ''--bpmn-gateway: #0077C8'', ''--bpmn-sequence-flow: #373A36'', ''--bpmn-pool: #DBDCDB'',
      ''--bpmn-border: #00454D'', ''--bpmn-highlight: #702F8A'']"
  by (simp add: cssDeclarations_def)

lemma cssDeclarations_cong:
  "(\<And>g. getProperty merged' g = getProperty merged g) \<Longrightarrow>
     cssDeclarations merged' = cssDeclarations merged"
  by (simp add: cssDeclarations_def)

text \<open>
  C4. The merge is a per-field override: the merged theme has, under each field, what the
  caller's options have there (a value, or \<^verbatim>\<open>undefined\<close> when the caller passes the field
  so), and the default where the caller's options have no such field. The string is the
  list of the nine declarations of these merged values, each under its custom property
  and in the order of the fields, followed by the eight semantic colours, joined by
  \<^verbatim>\<open>; \<close>: each option the caller supplies is printed in the place of the default, and
  nowhere else. The string is determined by the merged values alone: options that merge
  to the same theme give the same string.
\<close>

theorem css_variables_reflect_options:
  "spread DEFAULT_ORNL_THEME options f =
     (case options f of Some v \<Rightarrow> Some v | None \<Rightarrow> DEFAULT_ORNL_THEME f) \<and>
   generateOrnlCssVariables options =
     join ''; ''
       (map (\<lambda>g. cssVariableName g @ '': '' @
                  interpolate (case options g of Some v \<Rightarrow> v
                               | None \<Rightarrow> getProperty DEFAULT_ORNL_THEME g))
          [primaryColor, secondaryColor, backgroundColor, textColor, errorColor,
           fontFamily, fontSize, borderWidth, borderRadius] @
        [''--bpmn-start-event: #F5B800'', ''--bpmn-end-event: #FE5000'', ''--bpmn-task: #00662C'',
         ''--bpmn-gateway: #0077C8'', ''--bpmn-sequence-flow: #373A36'', ''--bpmn-pool: #DBDCDB'',
         ''--bpmn-border: #00454D'', ''--bpmn-highlight: #702F8A'']) \<and>
   (\<forall>options'.
      (\<forall>g. getProperty (spread DEFAULT_ORNL_THEME options') g =
            getProperty (spread DEFAULT_ORNL_THEME options) g) \<longrightarrow>
      generateOrnlCssVariables options' = generateOrnlCssVariables options)"
proof (intro conjI allI impI)
  show "spread DEFAULT_ORNL_THEME options f =
     (case options f of Some v \<Rightarrow> Some v | None \<Rightarrow> DEFAULT_ORNL_THEME f)"
    by (rule spread_override)
next
  have "cssDeclarations (spread DEFAULT_ORNL_THEME options) =
     map (\<lambda>g. cssVariableName g @ '': '' @
                  interpolate (case options g of Some v \<Rightarrow> v
                               | None \<Rightarrow> getProperty DEFAULT_ORNL_THEME g))
          [primaryColor, secondaryColor, backgroundColor, textColor, errorColor,
           fontFamily, fontSize, borderWidth, borderRadius] @
        [''--bpmn-start-event: #F5B800'', ''--bpmn-end-event: #FE5000'', ''--bpmn-task: #00662C'',
         ''--bpmn-gateway: #0077C8'', ''--bpmn-sequence-flow: #373A36'', ''--bpmn-pool: #DBDCDB'',
         ''--bpmn-border: #00454D'', ''--bpmn-highlight: #702F8A'']"
    by (simp only: cssDeclarations_by_field getProperty_spread)
  then show "generateOrnlCssVariables options =
     join ''; ''
       (map (\<lambda>g. cssVariableName g @ '': '' @
                  interpolate (case options g of Some v \<Rightarrow> v
                               | None \<Rightarrow> getProperty DEFAULT_ORNL_THEME g))
          [primaryColor, secondaryColor, backgroundColor, textColor, errorColor,
           fontFamily, fontSize, borderWidth, borderRadius] @
        [''--bpmn-start-event: #F5B800'', ''--bpmn-end-event: #FE5000'', ''--bpmn-task: #00662C'',
         ''--bpmn-gateway: #0077C8'', ''--bpmn-sequence-flow: #373A36'', ''--bpmn-pool: #DBDCDB'',
         ''--bpmn-border: #00454D'', ''--bpmn-highlight: #702F8A''])"
    by (simp only: generateOrnlCssVariables_def Let_def)
next
  fix options' :: BpmnThemeOptions
  assume "\<forall>g. getProperty (spread DEFAULT_ORNL_THEME options') g =
            getProperty (spread DEFAULT_ORNL_THEME options) g"
  then have "cssDeclarations (spread DEFAULT_ORNL_THEME options') =
             cssDeclarations (spread DEFAULT_ORNL_THEME options)"
    by (intro cssDeclarations_cong) simp
  then show "generateOrnlCssVariables options' = generateOrnlCssVariables options"
    by (simp only: generateOrnlCssVariables_def Let_def)
qed

theorem css_variables_reflect_options_witness:
  "generateOrnlCssVariables [fontSize \<mapsto> Defined ''14px'', primaryColor \<mapsto> Undefined] =
     ''--ornl-primary: undefined; --ornl-secondary: #00454D; --ornl-background: #FFFFFF; --ornl-text: #373A36; --ornl-error: #FE5000; --ornl-font-family: Inter, system-ui, -apple-system, sans-serif; --ornl-font-size: 14px; --ornl-border-width: 1.5px; --ornl-border-radius: 4px; --bpmn-start-event: #F5B800; --bpmn-end-event: #FE5000; --bpmn-task: #00662C; --bpmn-gateway: #0077C8; --bpmn-sequence-flow: #373A36; --bpmn-pool: #DBDCDB; --bpmn-border: #00454D; --bpmn-highlight: #702F8A'' \<and>
   generateOrnlCssVariables [primaryColor \<mapsto> Defined ''#00662C''] = generateOrnlCssVariables Map.empty"
proof -
  let ?o = "[fontSize \<mapsto> Defined ''14px'', primaryColor \<mapsto> Undefined]"
  have a: "generateOrnlCssVariables ?o =
     ''--ornl-primary: undefined; --ornl-secondary: #00454D; --ornl-background: #FFFFFF; --ornl-text: #373A36; --ornl-error: #FE5000; --ornl-font-family: Inter, system-ui, -apple-system, sans-serif; --ornl-font-size: 14px; --ornl-border-width: 1.5px; --ornl-border-radius: 4px; --bpmn-start-event: #F5B800; --bpmn-end-event: #FE5000; --bpmn-task: #00662C; --bpmn-gateway: #0077C8; --bpmn-sequence-flow: #373A36; --bpmn-pool: #DBDCDB; --bpmn-border: #00454D; --bpmn-highlight: #702F8A''"
    using css_variables_reflect_options[of ?o primaryColor, THEN conjunct2, THEN conjunct1]
    by (simp add: interpolate_def getProperty_def)
  have same: "\<forall>g. getProperty (spread DEFAULT_ORNL_THEME [primaryColor \<mapsto> Defined ''#00662C'']) g =
            getProperty (spread DEFAULT_ORNL_THEME Map.empty) g"
  proof
    fix g show "getProperty (spread DEFAULT_ORNL_THEME [primaryColor \<mapsto> Defined ''#00662C'']) g =
            getProperty (spread DEFAULT_ORNL_THEME Map.empty) g"
      by (cases g) (simp_all add: getProperty_def spread_override)
  qed
  have b: "generateOrnlCssVariables [primaryColor \<mapsto> Defined ''#00662C''] =
           generateOrnlCssVariables Map.empty"
    using css_variables_reflect_options[of Map.empty primaryColor,
            THEN conjunct2, THEN conjunct2, THEN spec, THEN mp, OF same] .
  from a b show ?thesis by blast
qed

section \<open>Validation\<close>

lemma validate_non_string:
  "\<not> truthy v \<or> typeof v \<noteq> ''string'' \<Longrightarrow>
     validateBpmnXml v =
       \<lparr>isValid = False, errors = [''BPMN XML must be a non-empty string''], warnings = []\<rparr>"
  by (simp add: validateBpmnXml_def)

lemma validate_isValid_errors:
  "isValid (validateBpmnXml v) = (ValidationResult.errors (validateBpmnXml v) = [])"
  by (simp add: validateBpmnXml_def Let_def)

lemma validate_reports_structured:
  "(\<not> truthy v \<or> typeof v \<noteq> ''string'' \<longrightarrow>
      validateBpmnXml v =
        \<lparr>isValid = False, errors = [''BPMN XML must be a non-empty string''], warnings = []\<rparr>) \<and>
   isValid (validateBpmnXml v) = (ValidationResult.errors (validateBpmnXml v) = [])"
  using validate_non_string validate_isValid_errors by blast

lemma validate_unbalanced:
  "countMatches CHR ''<'' s \<noteq> countMatches CHR ''>'' s \<Longrightarrow>
     ''XML structure may be malformed (unmatched tags)''
       \<in> set (ValidationResult.warnings (validateBpmnXml (JsString s)))"
  by (auto simp: validateBpmnXml_def Let_def theString_def countMatches_def)

lemma validate_valid_iff:
  "isValid (validateBpmnXml (JsString s)) =
     (startsWith (trim s) ''<'' \<and>
      (str_includes s ''xmlns:bpmn'' \<or> str_includes s ''http://www.omg.org/spec/BPMN'') \<and>
      (str_includes s ''<definitions'' \<or> str_includes s ''<bpmn:definitions''))"
  by (auto simp: validateBpmnXml_def Let_def theString_def trim_def)

lemma validate2_returns_iff:
  "(\<exists>r. validateBpmnXml2 v = Inr r) =
     (\<exists>s. v = JsString s \<and> startsWith (trim s) ''<'' \<and>
          (str_includes s ''<bpmn'' \<or> str_includes s ''<definitions''))"
  by (cases v) (auto simp: validateBpmnXml2_def Let_def theString_def trim_def)

lemma validate2_unbalanced:
  "validateBpmnXml2 (JsString s) = Inr r \<Longrightarrow>
   countMatches CHR ''<'' s \<noteq> countMatches CHR ''>'' s \<Longrightarrow>
     ''XML structure may be malformed (unmatched tags)'' \<in> set (ValidationResult.warnings r)"
  by (auto simp: validateBpmnXml2_def Let_def theString_def split: if_splits)

lemma validate2_always_valid:
  "validateBpmnXml2 v = Inr r \<Longrightarrow> isValid r \<and> ValidationResult.errors r = []"
  by (auto simp: validateBpmnXml2_def Let_def split: if_splits)

lemma sample_valid:
  "validateBpmnXml (JsString sampleXml) = \<lparr>isValid = True, errors = [], warnings = []\<rparr>"
  by (simp add: validateBpmnXml_def sampleXml_def theString_def trim_def isWhiteSpace_def
        countMatches_def Let_def)

text \<open>
  C1. Evaluation at the empty string and at \<^verbatim>\<open>undefined\<close>. The first module's
  \<open>validateBpmnXml\<close> returns the invalid result with its descriptive error (lemma
  \<open>validate_reports_structured\<close> has it for every input). The second module's
  \<open>validateBpmnXml\<close>, under the same documentation, throws an \<open>SvgGenerationError\<close>
  instead of returning a result.
\<close>

theorem second_validator_throws_on_empty:
  "validateBpmnXml2 (JsString []) =
     Inl (SvgGenerationError ''BPMN XML must be a non-empty string'' None None) \<and>
   validateBpmnXml2 JsUndefined =
     Inl (SvgGenerationError ''BPMN XML must be a non-empty string'' None None) \<and>
   validateBpmnXml (JsString []) =
     \<lparr>isValid = False, errors = [''BPMN XML must be a non-empty string''], warnings = []\<rparr>"
  by (simp add: validateBpmnXml2_def validateBpmnXml_def)

theorem second_validator_throws_on_empty_witness:
  "isl (validateBpmnXml2 (JsString [])) \<and> \<not> isValid (validateBpmnXml (JsString []))"
  using second_validator_throws_on_empty by simp

text \<open>
  C2, as stated: balanced tag counts and a namespace marker do not make a text valid.
  The text below has both and is reported invalid, for it has no definitions element.
\<close>

theorem balanced_with_namespace_not_valid:
  \<open>countMatches CHR ''<'' ''<task xmlns:bpmn="m"/>'' = countMatches CHR ''>'' ''<task xmlns:bpmn="m"/>'' \<and>
   str_includes ''<task xmlns:bpmn="m"/>'' ''xmlns:bpmn'' \<and>
   \<not> isValid (validateBpmnXml (JsString ''<task xmlns:bpmn="m"/>''))\<close>
  by (simp add: validateBpmnXml_def theString_def trim_def isWhiteSpace_def countMatches_def Let_def)

text \<open>
  C2, amended. A text with balanced tag counts and a namespace marker that also starts,
  after trimming, with \<^verbatim>\<open><\<close> and contains \<^verbatim>\<open><definitions\<close> or \<^verbatim>\<open><bpmn:definitions\<close> is
  reported valid, with no error and without the warning about unmatched tags.
\<close>

theorem valid_when_all_checks_pass:
  assumes "countMatches CHR ''<'' s = countMatches CHR ''>'' s"
      and "str_includes s ''xmlns:bpmn'' \<or> str_includes s ''http://www.omg.org/spec/BPMN''"
      and "startsWith (trim s) ''<''"
      and "str_includes s ''<definitions'' \<or> str_includes s ''<bpmn:definitions''"
  shows "isValid (validateBpmnXml (JsString s)) \<and>
         ValidationResult.errors (validateBpmnXml (JsString s)) = [] \<and>
         ''XML structure may be malformed (unmatched tags)''
           \<notin> set (ValidationResult.warnings (validateBpmnXml (JsString s)))"
proof -
  from assms(3) have "s \<noteq> []" by (auto simp: trim_def)
  with assms show ?thesis
    by (auto simp add: validateBpmnXml_def Let_def theString_def simp del: str_includes.simps startsWith.simps)
qed

theorem valid_when_all_checks_pass_witness:
  "isValid (validateBpmnXml (JsString sampleXml)) \<and>
   ValidationResult.errors (validateBpmnXml (JsString sampleXml)) = [] \<and>
   ''XML structure may be malformed (unmatched tags)''
      \<notin> set (ValidationResult.warnings (validateBpmnXml (JsString sampleXml)))"
proof -
  have 1: "countMatches CHR ''<'' sampleXml = countMatches CHR ''>'' sampleXml"
    by (simp add: countMatches_def sampleXml_def)
  have 2: "str_includes sampleXml ''xmlns:bpmn'' \<or> str_includes sampleXml ''http://www.omg.org/spec/BPMN''"
    by (simp add: sampleXml_def)
  have 3: "startsWith (trim sampleXml) ''<''"
    by (simp add: sampleXml_def trim_def isWhiteSpace_def)
  have 4: "str_includes sampleXml ''<definitions'' \<or> str_includes sampleXml ''<bpmn:definitions''"
    by (simp add: sampleXml_def)
  show ?thesis by (rule valid_when_all_checks_pass[OF 1 2 3 4])
qed

text \<open>
  C5. A text whose counts of \<^verbatim>\<open><\<close> and \<^verbatim>\<open>>\<close> differ gets the warning about unmatched
  tags: in the result of the first module's \<open>validateBpmnXml\<close> always, and in every result
  of the second module's, which returns one whenever the text passes its two guards.
\<close>

theorem unbalanced_tags_warn:
  assumes "countMatches CHR ''<'' s \<noteq> countMatches CHR ''>'' s"
  shows "''XML structure may be malformed (unmatched tags)''
           \<in> set (ValidationResult.warnings (validateBpmnXml (JsString s))) \<and>
         (startsWith (trim s) ''<'' \<and> (str_includes s ''<bpmn'' \<or> str_includes s ''<definitions'') \<longrightarrow>
            (\<exists>r. validateBpmnXml2 (JsString s) = Inr r \<and>
               ''XML structure may be malformed (unmatched tags)'' \<in> set (ValidationResult.warnings r))) \<and>
         (\<forall>r. validateBpmnXml2 (JsString s) = Inr r \<longrightarrow>
               ''XML structure may be malformed (unmatched tags)'' \<in> set (ValidationResult.warnings r))"
proof (intro conjI impI allI)
  show "''XML structure may be malformed (unmatched tags)''
           \<in> set (ValidationResult.warnings (validateBpmnXml (JsString s)))"
    using assms by (rule validate_unbalanced)
next
  assume a: "startsWith (trim s) ''<'' \<and> (str_includes s ''<bpmn'' \<or> str_includes s ''<definitions'')"
  then have "\<exists>r. validateBpmnXml2 (JsString s) = Inr r"
    using validate2_returns_iff[of "JsString s"] by simp
  then obtain r where r: "validateBpmnXml2 (JsString s) = Inr r" ..
  from validate2_unbalanced[OF r assms] r
  show "\<exists>r. validateBpmnXml2 (JsString s) = Inr r \<and>
               ''XML structure may be malformed (unmatched tags)'' \<in> set (ValidationResult.warnings r)"
    by blast
next
  fix r assume "validateBpmnXml2 (JsString s) = Inr r"
  then show "''XML structure may be malformed (unmatched tags)'' \<in> set (ValidationResult.warnings r)"
    using assms by (rule validate2_unbalanced)
qed

theorem unbalanced_tags_warn_witness:
  "''XML structure may be malformed (unmatched tags)''
     \<in> set (ValidationResult.warnings (validateBpmnXml (JsString ''<bpmn:definitions>Missing closing tag<''))) \<and>
   (\<exists>r. validateBpmnXml2 (JsString ''<bpmn:definitions>Missing closing tag<'') = Inr r \<and>
      ''XML structure may be malformed (unmatched tags)'' \<in> set (ValidationResult.warnings r))"
proof -
  let ?s = "''<bpmn:definitions>Missing closing tag<''"
  have 1: "countMatches CHR ''<'' ?s \<noteq> countMatches CHR ''>'' ?s"
    by (simp add: countMatches_def)
  have 2: "startsWith (trim ?s) ''<'' \<and> (str_includes ?s ''<bpmn'' \<or> str_includes ?s ''<definitions'')"
    by (simp add: trim_def isWhiteSpace_def)
  from unbalanced_tags_warn[OF 1] 2 show ?thesis by blast
qed

section \<open>The loader and its cache\<close>


lemma loadFromUrl_world:
  "loadFromUrl fetch u cfg w = (out, w') \<Longrightarrow>
     fileCache w' = fileCache w \<and> (\<exists>rq. fetchLog w' = fetchLog w @ [rq] \<and> url rq = u)"
  by (auto simp: loadFromUrl_def Let_def)

lemma loadBpmnFile_world:
  "loadBpmnFile fetch clock path options w = (out, w') \<Longrightarrow>
     fileCache w' = fileCache w \<and>
     (if path = [] then fetchLog w' = fetchLog w
      else \<exists>rq. fetchLog w' = fetchLog w @ [rq] \<and> url rq = path)"
  by (auto simp: loadBpmnFile_def Let_def split: if_splits prod.splits sum.splits
           dest: loadFromUrl_world)

lemma loadBpmnFile_success_path:
  "loadBpmnFile fetch clock path options w = (Inr r, w') \<Longrightarrow> path \<noteq> []"
  by (auto simp: loadBpmnFile_def Let_def split: if_splits)




lemma loadAndCache_failure:
  assumes "loadAndCache fetch now clock path options w = (Inl e, w')"
  shows "fileCache w' = fileCache w \<and> loadBpmnFile fetch clock path options w = (Inl e, w')"
proof -
  obtain out w0 where l: "loadBpmnFile fetch clock path options w = (out, w0)"
    by (cases "loadBpmnFile fetch clock path options w")
  with assms have "out = Inl e" and "w' = w0"
    by (auto simp: loadAndCache_def split: sum.splits)
  with loadBpmnFile_world[OF l] l show ?thesis by auto
qed

lemma loadAndCache_success:
  assumes "loadAndCache fetch now clock path options w = (Inr r, w')"
  shows "fileCache w' = (fileCache w)(path \<mapsto> \<lparr>result = r, timestamp = now\<rparr>) \<and>
     (\<exists>rq. fetchLog w' = fetchLog w @ [rq] \<and> url rq = path)"
proof -
  obtain out w0 where l: "loadBpmnFile fetch clock path options w = (out, w0)"
    by (cases "loadBpmnFile fetch clock path options w")
  with assms have out: "out = Inr r"
    and w': "w' = w0\<lparr>fileCache := (fileCache w0)(path \<mapsto> \<lparr>result = r, timestamp = now\<rparr>)\<rparr>"
    by (auto simp: loadAndCache_def split: sum.splits)
  from l out have "path \<noteq> []" by (auto dest: loadBpmnFile_success_path)
  with loadBpmnFile_world[OF l] w' show ?thesis by auto
qed

lemma loadAndCache_log:
  assumes "loadAndCache fetch now clock path options w = (out, w')" and "path \<noteq> []"
  shows "\<exists>rq. fetchLog w' = fetchLog w @ [rq] \<and> url rq = path"
proof -
  obtain out0 w0 where l: "loadBpmnFile fetch clock path options w = (out0, w0)"
    by (cases "loadBpmnFile fetch clock path options w")
  with assms have "fetchLog w' = fetchLog w0"
    by (auto simp: loadAndCache_def split: sum.splits)
  with loadBpmnFile_world[OF l] assms(2) show ?thesis by auto
qed

lemma withCache_cases:
  "loadBpmnFileWithCache fetch now clock path options w =
     (case fileCache w path of
        Some entry \<Rightarrow>
          if now - timestamp entry < effectiveTtl (cacheTtl options)
          then (Inr ((result entry)\<lparr>loadTime := 0\<rparr>), w)
          else loadAndCache fetch now clock path options w
      | None \<Rightarrow> loadAndCache fetch now clock path options w)"
  by (simp add: loadBpmnFileWithCache_def Let_def)

lemma withCache_failure_is_miss:
  "loadBpmnFileWithCache fetch now clock path options w = (Inl e, w') \<Longrightarrow>
     loadAndCache fetch now clock path options w = (Inl e, w') \<and>
     (case fileCache w path of
        Some entry \<Rightarrow> effectiveTtl (cacheTtl options) \<le> now - timestamp entry
      | None \<Rightarrow> True)"
  by (auto simp: withCache_cases split: option.splits if_splits)

lemma sample_load_any:
  "p \<noteq> [] \<Longrightarrow>
   loadBpmnFile sampleFetch (t0, t1) p (noOptions\<lparr>cacheTtl := c\<rparr>) w =
     (Inr \<lparr>content = sampleXml, size = 67, mimeType = Some ''application/xml'',
           lastModified = None, loadTime = t1 - t0,
           validation = Some \<lparr>isValid = True, errors = [], warnings = []\<rparr>\<rparr>,
      w\<lparr>fetchLog := fetchLog w @
          [\<lparr>url = p,
            requestHeaders = Map.empty(''Accept'' \<mapsto> ''application/xml, text/xml, text/plain, */*''),
            deadline = Defined 30000\<rparr>]\<rparr>)"
proof -
  have len: "utf8Length sampleXml = 67"
    by (simp add: utf8Length_def sampleXml_def)
  have declared: "declaredTooLarge (Some ''67'') (Defined 10485760) = None"
    by (simp add: declaredTooLarge_def nonEmpty_def parseInt_def isWhiteSpace_def
          isRadixDigit_def digitValue_def digitsValue_def exceeds_def Let_def)
  assume "p \<noteq> []"
  then show ?thesis
    by (simp add: loadBpmnFile_def loadFromUrl_def Let_def mergeFileOptions_def
          DEFAULT_FILE_OPTIONS_def orDefault_def noOptions_def sampleFetch_def spread_def
          nonEmpty_def readBody_def exceeds_def sample_valid len declared)
qed

lemma failing_load_any:
  "p \<noteq> [] \<Longrightarrow>
   loadBpmnFile failingFetch clock p (noOptions\<lparr>cacheTtl := c\<rparr>) w =
     (Inl (FileLoadError ''Failed to load BPMN file: Fetch not available'' p
             (Some (Error ''Fetch not available''))),
      w\<lparr>fetchLog := fetchLog w @
          [\<lparr>url = p,
            requestHeaders = Map.empty(''Accept'' \<mapsto> ''application/xml, text/xml, text/plain, */*''),
            deadline = Defined 30000\<rparr>]\<rparr>)"
  by (simp add: loadBpmnFile_def loadFromUrl_def Let_def mergeFileOptions_def
        DEFAULT_FILE_OPTIONS_def orDefault_def noOptions_def failingFetch_def spread_def
        wrapLoadError_def)

lemma first_cached_load:
  "loadBpmnFileWithCache sampleFetch now (now, now + 5) ''process.bpmn'' (noOptions\<lparr>cacheTtl := c\<rparr>) emptyWorld =
     (Inr sampleResult, loadedWorld now)"
  by (simp add: withCache_cases loadAndCache_def sample_load_any emptyWorld_def loadedWorld_def
        sampleResult_def sampleRequest_def)

lemma effectiveTtl_configured: "t \<noteq> 0 \<Longrightarrow> effectiveTtl (Some (Defined t)) = t"
  by (simp add: effectiveTtl_def)

lemma effectiveTtl_default: "effectiveTtl None = 300000 \<and> effectiveTtl (Some Undefined) = 300000"
  by (simp add: effectiveTtl_def)

text \<open>
  With the time-to-live that \<open>loadBpmnFileWithCache\<close> computes, the cache does what is
  asked of it. After a call that loaded the file from the network at time \<open>now1\<close> and
  succeeded, and while the entry of the key is not touched, a call at a time less than
  the time-to-live after \<open>now1\<close> returns the same content and leaves the state, the log of
  requests included, as it is; a call at or past the time-to-live sends a request for the
  path. By \<open>effectiveTtl_configured\<close> and \<open>effectiveTtl_default\<close> that time-to-live is the
  configured \<open>cacheTtl\<close> whenever one other than 0 is configured, and five minutes when
  none is.
\<close>

lemma cache_serves_within_effective_ttl:
  assumes first: "loadBpmnFileWithCache fetch1 now1 clock1 path opts1 w = (Inr r1, w1)"
      and fresh: "fetchLog w1 \<noteq> fetchLog w"
      and same: "fileCache w2 path = fileCache w1 path"
  shows "(now2 - now1 < effectiveTtl (cacheTtl opts2) \<longrightarrow>
            (\<exists>r2. loadBpmnFileWithCache fetch2 now2 clock2 path opts2 w2 = (Inr r2, w2) \<and>
                  content r2 = content r1)) \<and>
         (effectiveTtl (cacheTtl opts2) \<le> now2 - now1 \<longrightarrow>
            (\<exists>out w3 rq. loadBpmnFileWithCache fetch2 now2 clock2 path opts2 w2 = (out, w3) \<and>
                  fetchLog w3 = fetchLog w2 @ [rq] \<and> url rq = path))"
proof -
  have miss: "loadAndCache fetch1 now1 clock1 path opts1 w = (Inr r1, w1)"
    using first fresh by (auto simp: withCache_cases split: option.splits if_splits)
  from loadAndCache_success[OF miss]
  have entry: "fileCache w1 path = Some \<lparr>result = r1, timestamp = now1\<rparr>" by simp
  have path: "path \<noteq> []"
    using miss by (auto simp: loadAndCache_def split: prod.splits sum.splits dest: loadBpmnFile_success_path)
  from same entry have e2: "fileCache w2 path = Some \<lparr>result = r1, timestamp = now1\<rparr>" by simp
  show ?thesis
  proof (intro conjI impI)
    assume "now2 - now1 < effectiveTtl (cacheTtl opts2)"
    then have "loadBpmnFileWithCache fetch2 now2 clock2 path opts2 w2 = (Inr (r1\<lparr>loadTime := 0\<rparr>), w2)"
      using e2 by (simp add: withCache_cases)
    then show "\<exists>r2. loadBpmnFileWithCache fetch2 now2 clock2 path opts2 w2 = (Inr r2, w2) \<and>
                  content r2 = content r1"
      by simp
  next
    assume "effectiveTtl (cacheTtl opts2) \<le> now2 - now1"
    then have eq: "loadBpmnFileWithCache fetch2 now2 clock2 path opts2 w2 =
                 loadAndCache fetch2 now2 clock2 path opts2 w2"
      using e2 by (simp add: withCache_cases)
    obtain out w3 where l: "loadAndCache fetch2 now2 clock2 path opts2 w2 = (out, w3)"
      by (cases "loadAndCache fetch2 now2 clock2 path opts2 w2")
    from loadAndCache_log[OF l path] eq l
    show "\<exists>out w3 rq. loadBpmnFileWithCache fetch2 now2 clock2 path opts2 w2 = (out, w3) \<and>
                  fetchLog w3 = fetchLog w2 @ [rq] \<and> url rq = path"
      by auto
  qed
qed

text \<open>
  C3. Evaluation with \<open>cacheTtl\<close> configured as 0. The first call, at time 0, loads the
  file from the network and succeeds. The second call comes one millisecond later, which
  is past a time-to-live of 0, and its network would fail; it is served from the cache all
  the same, and the log of requests stays as the first call left it. The default has
  taken the place of the configured 0.
\<close>

theorem zero_ttl_served_from_cache:
  "cacheTtl zeroTtlOptions = Some (Defined 0) \<and>
   loadBpmnFileWithCache sampleFetch 0 (0, 5) ''process.bpmn'' zeroTtlOptions emptyWorld =
     (Inr sampleResult, loadedWorld 0) \<and>
   (0 :: int) \<le> 1 - 0 \<and>
   loadBpmnFileWithCache failingFetch 1 (1, 6) ''process.bpmn'' zeroTtlOptions (loadedWorld 0) =
     (Inr (sampleResult\<lparr>loadTime := 0\<rparr>), loadedWorld 0) \<and>
   fetchLog (loadedWorld 0) = [sampleRequest] \<and>
   effectiveTtl (cacheTtl zeroTtlOptions) = 300000"
proof -
  have a: "loadBpmnFileWithCache sampleFetch 0 (0, 5) ''process.bpmn'' zeroTtlOptions emptyWorld =
     (Inr sampleResult, loadedWorld 0)"
    using first_cached_load[of 0 "Some (Defined 0)"] by (simp add: zeroTtlOptions_def)
  have b: "loadBpmnFileWithCache failingFetch 1 (1, 6) ''process.bpmn'' zeroTtlOptions (loadedWorld 0) =
     (Inr (sampleResult\<lparr>loadTime := 0\<rparr>), loadedWorld 0)"
    by (simp add: withCache_cases loadedWorld_def zeroTtlOptions_def noOptions_def effectiveTtl_def)
  show ?thesis using a b by (simp add: zeroTtlOptions_def noOptions_def loadedWorld_def effectiveTtl_def)
qed

theorem zero_ttl_served_from_cache_witness:
  "fetchLog (snd (loadBpmnFileWithCache failingFetch 1 (1, 6) ''process.bpmn'' zeroTtlOptions
                    (loadedWorld 0))) = [sampleRequest] \<and>
   \<not> isl (fst (loadBpmnFileWithCache failingFetch 1 (1, 6) ''process.bpmn'' zeroTtlOptions
                  (loadedWorld 0)))"
  using zero_ttl_served_from_cache by simp

text \<open>
  C10, as stated: after a failed load, a later call for the key need not load afresh. The
  cache holds an entry of time 0. A call at time 10 with a time-to-live of 10 finds it
  expired, loads, and fails. A call at time 11 with a time-to-live of 100 is served that
  entry and sends no request: the log of requests is as the failed call left it.
\<close>

theorem stale_entry_served_after_failed_load:
  "loadBpmnFileWithCache failingFetch 10 (10, 15) ''process.bpmn''
       (noOptions\<lparr>cacheTtl := Some (Defined 10)\<rparr>) (loadedWorld 0) =
     (Inl (FileLoadError ''Failed to load BPMN file: Fetch not available'' ''process.bpmn''
             (Some (Error ''Fetch not available''))),
      (loadedWorld 0)\<lparr>fetchLog := [sampleRequest, sampleRequest]\<rparr>) \<and>
   loadBpmnFileWithCache sampleFetch 11 (11, 16) ''process.bpmn''
       (noOptions\<lparr>cacheTtl := Some (Defined 100)\<rparr>)
       ((loadedWorld 0)\<lparr>fetchLog := [sampleRequest, sampleRequest]\<rparr>) =
     (Inr (sampleResult\<lparr>loadTime := 0\<rparr>),
      (loadedWorld 0)\<lparr>fetchLog := [sampleRequest, sampleRequest]\<rparr>)"
  by (simp add: withCache_cases loadAndCache_def failing_load_any loadedWorld_def
        sampleRequest_def effectiveTtl_def)

text \<open>
  C10, amended. When \<open>loadBpmnFileWithCache\<close> fails, it is \<open>loadBpmnFile\<close> that failed, and
  the cache map is as before. What a later call for the key does is decided by the entry
  that was there before the failed call and by the later call's own time-to-live (one
  configured as 0 aside): with no entry, or with an entry at least as old as that
  time-to-live, it loads afresh; with a younger entry it returns that entry and leaves the
  state as it is. In particular it loads afresh when it is configured with the same
  \<open>cacheTtl\<close> as the failed call and is not earlier.
\<close>

theorem failed_load_leaves_cache:
  assumes failed: "loadBpmnFileWithCache fetch now clock path options w = (Inl e, w')"
  shows "fileCache w' = fileCache w \<and>
         loadBpmnFile fetch clock path options w = (Inl e, w') \<and>
         (cacheTtl options2 \<noteq> Some (Defined 0) \<longrightarrow>
            (case fileCache w path of
               None \<Rightarrow>
                 loadBpmnFileWithCache fetch2 now2 clock2 path options2 w' =
                   loadAndCache fetch2 now2 clock2 path options2 w'
             | Some entry \<Rightarrow>
                 if effectiveTtl (cacheTtl options2) \<le> now2 - timestamp entry
                 then loadBpmnFileWithCache fetch2 now2 clock2 path options2 w' =
                        loadAndCache fetch2 now2 clock2 path options2 w'
                 else loadBpmnFileWithCache fetch2 now2 clock2 path options2 w' =
                        (Inr ((result entry)\<lparr>loadTime := 0\<rparr>), w'))) \<and>
         (cacheTtl options2 = cacheTtl options \<and> now \<le> now2 \<longrightarrow>
            loadBpmnFileWithCache fetch2 now2 clock2 path options2 w' =
              loadAndCache fetch2 now2 clock2 path options2 w')"
proof -
  from withCache_failure_is_miss[OF failed]
  have miss: "loadAndCache fetch now clock path options w = (Inl e, w')"
    and stale: "case fileCache w path of
                  Some entry \<Rightarrow> effectiveTtl (cacheTtl options) \<le> now - timestamp entry
                | None \<Rightarrow> True"
    by simp_all
  from loadAndCache_failure[OF miss]
  have unchanged: "fileCache w' = fileCache w"
    and load: "loadBpmnFile fetch clock path options w = (Inl e, w')"
    by simp_all
  have exact: "case fileCache w path of
               None \<Rightarrow>
                 loadBpmnFileWithCache fetch2 now2 clock2 path options2 w' =
                   loadAndCache fetch2 now2 clock2 path options2 w'
             | Some entry \<Rightarrow>
                 if effectiveTtl (cacheTtl options2) \<le> now2 - timestamp entry
                 then loadBpmnFileWithCache fetch2 now2 clock2 path options2 w' =
                        loadAndCache fetch2 now2 clock2 path options2 w'
                 else loadBpmnFileWithCache fetch2 now2 clock2 path options2 w' =
                        (Inr ((result entry)\<lparr>loadTime := 0\<rparr>), w')"
    using unchanged by (auto simp: withCache_cases split: option.splits)
  have again: "loadBpmnFileWithCache fetch2 now2 clock2 path options2 w' =
            loadAndCache fetch2 now2 clock2 path options2 w'"
    if "cacheTtl options2 = cacheTtl options \<and> now \<le> now2"
    using that stale unchanged
    by (auto simp: withCache_cases split: option.splits)
  from unchanged load exact again show ?thesis by blast
qed

theorem failed_load_leaves_cache_witness:
  "loadBpmnFileWithCache sampleFetch 12 (12, 17) ''process.bpmn''
       (noOptions\<lparr>cacheTtl := Some (Defined 10)\<rparr>)
       ((loadedWorld 0)\<lparr>fetchLog := [sampleRequest, sampleRequest]\<rparr>) =
     loadAndCache sampleFetch 12 (12, 17) ''process.bpmn''
       (noOptions\<lparr>cacheTtl := Some (Defined 10)\<rparr>)
       ((loadedWorld 0)\<lparr>fetchLog := [sampleRequest, sampleRequest]\<rparr>) \<and>
   loadBpmnFileWithCache sampleFetch 11 (11, 16) ''process.bpmn''
       (noOptions\<lparr>cacheTtl := Some (Defined 100)\<rparr>)
       ((loadedWorld 0)\<lparr>fetchLog := [sampleRequest, sampleRequest]\<rparr>) =
     (Inr (sampleResult\<lparr>loadTime := 0\<rparr>),
      (loadedWorld 0)\<lparr>fetchLog := [sampleRequest, sampleRequest]\<rparr>) \<and>
   fileCache ((loadedWorld 0)\<lparr>fetchLog := [sampleRequest, sampleRequest]\<rparr>) =
     fileCache (loadedWorld 0)"
proof -
  let ?w' = "(loadedWorld 0)\<lparr>fetchLog := [sampleRequest, sampleRequest]\<rparr>"
  let ?ten = "noOptions\<lparr>cacheTtl := Some (Defined 10)\<rparr>"
  let ?hundred = "noOptions\<lparr>cacheTtl := Some (Defined 100)\<rparr>"
  have failed: "loadBpmnFileWithCache failingFetch 10 (10, 15) ''process.bpmn'' ?ten (loadedWorld 0) =
     (Inl (FileLoadError ''Failed to load BPMN file: Fetch not available'' ''process.bpmn''
             (Some (Error ''Fetch not available''))), ?w')"
    by (simp add: withCache_cases loadAndCache_def failing_load_any loadedWorld_def
          sampleRequest_def effectiveTtl_def)
  have entry: "fileCache (loadedWorld 0) ''process.bpmn'' =
                 Some \<lparr>result = sampleResult, timestamp = 0\<rparr>"
    by (simp add: loadedWorld_def)
  have ten: "cacheTtl ?ten \<noteq> Some (Defined 0) \<and> effectiveTtl (cacheTtl ?ten) = 10"
    by (simp add: effectiveTtl_def)
  have hundred: "cacheTtl ?hundred \<noteq> Some (Defined 0) \<and> effectiveTtl (cacheTtl ?hundred) = 100"
    by (simp add: effectiveTtl_def)
  note inst = failed_load_leaves_cache[OF failed]
  have a: "loadBpmnFileWithCache sampleFetch 12 (12, 17) ''process.bpmn'' ?ten ?w' =
     loadAndCache sampleFetch 12 (12, 17) ''process.bpmn'' ?ten ?w'"
    using inst[where ?options2.0 = ?ten and ?now2.0 = 12 and ?fetch2.0 = sampleFetch
                 and ?clock2.0 = "(12, 17)", THEN conjunct2, THEN conjunct2, THEN conjunct2]
    by simp
  have b: "loadBpmnFileWithCache sampleFetch 11 (11, 16) ''process.bpmn'' ?hundred ?w' =
     (Inr (sampleResult\<lparr>loadTime := 0\<rparr>), ?w')"
    using inst[where ?options2.0 = ?hundred and ?now2.0 = 11 and ?fetch2.0 = sampleFetch
                 and ?clock2.0 = "(11, 16)", THEN conjunct2, THEN conjunct2, THEN conjunct1]
          entry hundred
    by simp
  have c: "fileCache ?w' = fileCache (loadedWorld 0)"
    using inst[THEN conjunct1] .
  from a b c show ?thesis by blast
qed

section \<open>The generator: handler and cleanup\<close>

lemma wrapSvgError_kind: "is_SvgGenerationError (wrapSvgError xml e)"
  by (simp add: wrapSvgError_def)

lemma interpolateNumber_teardown:
  "interpolateNumber (E\<lparr>destroyViewer := d, closeWindow := c\<rparr>) v = interpolateNumber E v"
  by (simp add: interpolateNumber_def split: or_undefined.splits js_number.splits)

lemma toFixed3_teardown:
  "toFixed3 (E\<lparr>destroyViewer := d, closeWindow := c\<rparr>) a = toFixed3 E a"
  by (simp add: toFixed3_def split: js_number.splits)

lemma fitViewportZoom_teardown:
  "fitViewportZoom (E\<lparr>destroyViewer := d, closeWindow := c\<rparr>) config ws = fitViewportZoom E config ws"
  by (simp add: fitViewportZoom_def interpolateNumber_teardown
        cong: option.case_cong sum.case_cong if_cong)

lemma applyZoom_teardown:
  "applyZoom (E\<lparr>destroyViewer := d, closeWindow := c\<rparr>) config canvas n ws = applyZoom E config canvas n ws"
  by (simp add: applyZoom_def fitViewportZoom_teardown cong: option.case_cong sum.case_cong if_cong)

lemma exportSvg_teardown:
  "exportSvg (E\<lparr>destroyViewer := d, closeWindow := c\<rparr>) xml config canvas z ws = exportSvg E xml config canvas z ws"
  by (simp add: exportSvg_def cong: option.case_cong sum.case_cong if_cong)

lemma zoomAndExport_teardown:
  "zoomAndExport (E\<lparr>destroyViewer := d, closeWindow := c\<rparr>) xml config canvas els st =
     zoomAndExport E xml config canvas els st"
  by (simp add: zoomAndExport_def applyZoom_teardown exportSvg_teardown
        cong: prod.case_cong sum.case_cong)

lemma renderBody_teardown:
  "renderBody (E\<lparr>destroyViewer := d, closeWindow := c\<rparr>) xml config = renderBody E xml config"
  by (simp add: renderBody_def zoomAndExport_teardown
        cong: option.case_cong sum.case_cong if_cong)

lemma exportSvg_warnings:
  "exportSvg E xml config canvas z ws = Inr r \<Longrightarrow> SvgGenerationResult.warnings r = ws"
  by (auto simp: exportSvg_def Let_def split: sum.splits)



lemma zoomAndExport_success:
  assumes "fst (zoomAndExport E xml config canvas els st) = Inr r"
  shows "domAssigned (snd (zoomAndExport E xml config canvas els st)) = domAssigned st \<and>
         viewerAssigned (snd (zoomAndExport E xml config canvas els st)) = viewerAssigned st \<and>
         SvgGenerationResult.warnings r = warningsSoFar (snd (zoomAndExport E xml config canvas els st))"
  using assms
  by (auto simp: zoomAndExport_def Let_def split: prod.splits sum.splits dest: exportSvg_warnings)


lemma renderBody_success:
  assumes "fst (renderBody E xml config) = Inr r"
  shows "domAssigned (snd (renderBody E xml config)) \<and> viewerAssigned (snd (renderBody E xml config))
         \<and> SvgGenerationResult.warnings r = warningsSoFar (snd (renderBody E xml config))"
  using assms
  by (auto simp: renderBody_def Let_def split: option.splits sum.splits if_splits
           dest: zoomAndExport_success)


lemma generateFallbackSvg_teardown:
  "generateFallbackSvg (E\<lparr>destroyViewer := d, closeWindow := c\<rparr>) config = generateFallbackSvg E config"
  by (simp add: generateFallbackSvg_def interpolateNumber_teardown)

lemma centerViewport_teardown:
  "centerViewport (E\<lparr>destroyViewer := d, closeWindow := c\<rparr>) config b z ws = centerViewport E config b z ws"
  by (simp add: centerViewport_def interpolateNumber_teardown
        cong: option.case_cong sum.case_cong if_cong prod.case_cong)

lemma fitViewportZoom2_teardown:
  "fitViewportZoom2 (E\<lparr>destroyViewer := d, closeWindow := c\<rparr>) config ob ws = fitViewportZoom2 E config ob ws"
  by (simp add: fitViewportZoom2_def centerViewport_teardown interpolateNumber_teardown
        cong: option.case_cong sum.case_cong if_cong)

lemma calculatedZoom_teardown:
  "calculatedZoom (E\<lparr>destroyViewer := d, closeWindow := c\<rparr>) config ob m ws = calculatedZoom E config ob m ws"
  by (simp add: calculatedZoom_def toFixed3_teardown
        cong: option.case_cong sum.case_cong if_cong prod.case_cong)

lemma applyZoom2_teardown:
  "applyZoom2 (E\<lparr>destroyViewer := d, closeWindow := c\<rparr>) config canvas n ob ws = applyZoom2 E config canvas n ob ws"
  by (simp add: applyZoom2_def fitViewportZoom2_teardown calculatedZoom_teardown
           cong: option.case_cong sum.case_cong if_cong prod.case_cong)

lemma patchedViewbox_teardown:
  "patchedViewbox (E\<lparr>destroyViewer := d, closeWindow := c\<rparr>) config ob = patchedViewbox E config ob"
  by (simp add: patchedViewbox_def)

lemma exportSvg2_teardown:
  "exportSvg2 t (E\<lparr>destroyViewer := d, closeWindow := c\<rparr>) xml config canvas ob z ws = exportSvg2 t E xml config canvas ob z ws"
  by (simp add: exportSvg2_def patchedViewbox_teardown cong: option.case_cong sum.case_cong if_cong)

lemma zoomAndExport2_teardown:
  "zoomAndExport2 t (E\<lparr>destroyViewer := d, closeWindow := c\<rparr>) xml config canvas els st =
     zoomAndExport2 t E xml config canvas els st"
  by (simp add: zoomAndExport2_def applyZoom2_teardown exportSvg2_teardown
        cong: prod.case_cong sum.case_cong)

lemma renderBody2_teardown:
  "renderBody2 t (E\<lparr>destroyViewer := d, closeWindow := c\<rparr>) xml config = renderBody2 t E xml config"
  by (simp add: renderBody2_def zoomAndExport2_teardown
        cong: option.case_cong sum.case_cong if_cong)

lemma exportSvg2_warnings:
  "exportSvg2 t E xml config canvas ob z ws = (Inr r, ws') \<Longrightarrow> SvgGenerationResult.warnings r = ws'"
  by (auto simp: exportSvg2_def Let_def split: sum.splits)



lemma zoomAndExport2_success:
  assumes "fst (zoomAndExport2 t E xml config canvas els st) = Inr r"
  shows "domAssigned (snd (zoomAndExport2 t E xml config canvas els st)) = domAssigned st \<and>
         viewerAssigned (snd (zoomAndExport2 t E xml config canvas els st)) = viewerAssigned st \<and>
         SvgGenerationResult.warnings r =
           warningsSoFar (snd (zoomAndExport2 t E xml config canvas els st))"
  using assms
  by (auto simp: zoomAndExport2_def Let_def split: prod.splits sum.splits dest: exportSvg2_warnings)


lemma renderBody2_success:
  assumes "fst (renderBody2 t E xml config) = Inr r"
  shows "domAssigned (snd (renderBody2 t E xml config)) \<and> viewerAssigned (snd (renderBody2 t E xml config))
         \<and> SvgGenerationResult.warnings r = warningsSoFar (snd (renderBody2 t E xml config))"
  using assms
  by (auto simp: renderBody2_def Let_def split: option.splits sum.splits if_splits
           dest: zoomAndExport2_success)


lemma cleanup_eq:
  "cleanup E st =
     warningsSoFar st @
     (if viewerAssigned st
      then (case destroyViewer E of Some m \<Rightarrow> [''Viewer cleanup warning: '' @ m] | None \<Rightarrow> [])
      else []) @
     (if domAssigned st
      then (case closeWindow E of Some m \<Rightarrow> [''DOM cleanup warning: '' @ m] | None \<Rightarrow> [])
      else [])"
  by (simp add: cleanup_def Let_def split: option.splits)

lemma cleanup_clean:
  "cleanup (E\<lparr>destroyViewer := None, closeWindow := None\<rparr>) st = warningsSoFar st"
  by (simp add: cleanup_eq)

lemma cleanup_assigned:
  "domAssigned st \<Longrightarrow> viewerAssigned st \<Longrightarrow> cleanup E st = warningsSoFar st @ teardownWarnings E"
  by (simp add: cleanup_eq teardownWarnings_def)

lemma cleanup_extends:
  "\<exists>ws. cleanup E st = warningsSoFar st @ ws \<and> set ws \<subseteq> set (teardownWarnings E)"
proof -
  let ?ws = "(if viewerAssigned st
      then (case destroyViewer E of Some m \<Rightarrow> [''Viewer cleanup warning: '' @ m] | None \<Rightarrow> [])
      else []) @
     (if domAssigned st
      then (case closeWindow E of Some m \<Rightarrow> [''DOM cleanup warning: '' @ m] | None \<Rightarrow> [])
      else [])"
  have "cleanup E st = warningsSoFar st @ ?ws" by (rule cleanup_eq)
  moreover have "set ?ws \<subseteq> set (teardownWarnings E)"
    by (cases "destroyViewer E"; cases "closeWindow E"; cases "viewerAssigned st"; cases "domAssigned st")
       (simp_all add: teardownWarnings_def)
  ultimately show ?thesis by blast
qed

lemma catchFinally_teardown:
  assumes ok: "\<And>r. fst run = Inr r \<Longrightarrow>
            domAssigned (snd run) \<and> viewerAssigned (snd run) \<and> SvgGenerationResult.warnings r = warningsSoFar (snd run)"
  shows "(case fst (catchFinally (E\<lparr>destroyViewer := None, closeWindow := None\<rparr>) xml run) of
            Inl e \<Rightarrow> fst (catchFinally E xml run) = Inl e
          | Inr r \<Rightarrow> fst (catchFinally E xml run) =
                      Inr (r\<lparr>warnings := SvgGenerationResult.warnings r @ teardownWarnings E\<rparr>))
         \<and> (\<exists>ws. snd (catchFinally E xml run) =
                  snd (catchFinally (E\<lparr>destroyViewer := None, closeWindow := None\<rparr>) xml run) @ ws
                \<and> set ws \<subseteq> set (teardownWarnings E))"
proof (cases "fst run")
  case (Inl e)
  then show ?thesis
    using cleanup_extends[of E "snd run"]
    by (simp add: catchFinally_def Let_def cleanup_clean)
next
  case (Inr r)
  from ok[OF Inr] have "cleanup E (snd run) = warningsSoFar (snd run) @ teardownWarnings E"
    and "SvgGenerationResult.warnings r = warningsSoFar (snd run)"
    by (simp_all add: cleanup_assigned)
  with Inr show ?thesis
    by (simp add: catchFinally_def Let_def cleanup_clean)
qed

lemma generateStaticSVG_cases:
  "generateStaticSVG E v options =
     (if \<not> truthy v \<or> typeof v \<noteq> ''string'' then
        (Inl (SvgGenerationError ''Invalid BPMN XML: must be a non-empty string'' None None), [])
      else if \<not> str_includes (theString v) ''<bpmn'' \<and> \<not> str_includes (theString v) ''<definitions'' then
        (Inl (SvgGenerationError ''Invalid BPMN XML: missing BPMN definitions'' (Some (theString v)) None), [])
      else catchFinally E (theString v)
             (renderBody E (theString v) (mergeSvgOptions DEFAULT_SVG_OPTIONS options)))"
  by (simp add: generateStaticSVG_def Let_def)

lemma generateStaticSVG2_cases:
  "generateStaticSVG2 t E v options =
     (if \<not> truthy v \<or> typeof v \<noteq> ''string'' then
        (Inl (SvgGenerationError ''Invalid BPMN XML: must be a non-empty string'' None None), [])
      else if \<not> str_includes (theString v) ''<bpmn'' \<and> \<not> str_includes (theString v) ''<definitions'' then
        (Inl (SvgGenerationError ''Invalid BPMN XML: missing BPMN definitions'' (Some (theString v)) None), [])
      else if useFallbackEnv E \<or> importViewerModule E \<noteq> None then
        (Inr (generateFallbackSvg E (mergeSvgOptions DEFAULT_SVG_OPTIONS2 options)), [])
      else catchFinally E (theString v)
             (renderBody2 t E (theString v) (mergeSvgOptions DEFAULT_SVG_OPTIONS2 options)))"
  by (auto simp add: generateStaticSVG2_def Let_def simp del: str_includes.simps split: option.splits)

lemma render_path_throws:
  "\<not> truthy v \<or> typeof v \<noteq> ''string'' \<Longrightarrow>
     fst (generateStaticSVG E v options) =
       Inl (SvgGenerationError ''Invalid BPMN XML: must be a non-empty string'' None None) \<and>
     fst (generateStaticSVG2 t E v options) =
       Inl (SvgGenerationError ''Invalid BPMN XML: must be a non-empty string'' None None)"
  by (simp add: generateStaticSVG_cases generateStaticSVG2_cases del: str_includes.simps)

lemma teardown_first_module:
  "(case fst (generateStaticSVG (cleanTeardown E) v options) of
      Inl e \<Rightarrow> fst (generateStaticSVG E v options) = Inl e
    | Inr r \<Rightarrow> fst (generateStaticSVG E v options) =
                Inr (r\<lparr>warnings := SvgGenerationResult.warnings r @ teardownWarnings E\<rparr>)) \<and>
   (\<exists>ws. snd (generateStaticSVG E v options) = snd (generateStaticSVG (cleanTeardown E) v options) @ ws
        \<and> set ws \<subseteq> set (teardownWarnings E))"
proof -
  let ?config = "mergeSvgOptions DEFAULT_SVG_OPTIONS options"
  let ?xml = "theString v"
  let ?run = "renderBody E ?xml ?config"
  let ?E0 = "E\<lparr>destroyViewer := None, closeWindow := None\<rparr>"
  have run: "renderBody ?E0 ?xml ?config = ?run"
    by (rule renderBody_teardown)
  have *: "\<And>r. fst ?run = Inr r \<Longrightarrow>
            domAssigned (snd ?run) \<and> viewerAssigned (snd ?run) \<and> SvgGenerationResult.warnings r = warningsSoFar (snd ?run)"
    by (rule renderBody_success)
  consider (a) "\<not> truthy v \<or> typeof v \<noteq> ''string''"
    | (b) "\<not> (\<not> truthy v \<or> typeof v \<noteq> ''string'')"
          "\<not> str_includes ?xml ''<bpmn'' \<and> \<not> str_includes ?xml ''<definitions''"
    | (c) "\<not> (\<not> truthy v \<or> typeof v \<noteq> ''string'')"
          "\<not> (\<not> str_includes ?xml ''<bpmn'' \<and> \<not> str_includes ?xml ''<definitions'')"
    by blast
  then show ?thesis
  proof cases
    case a
    then show ?thesis by (simp add: generateStaticSVG_cases del: str_includes.simps)
  next
    case b
    then show ?thesis by (simp add: generateStaticSVG_cases del: str_includes.simps)
  next
    case c
    then have "generateStaticSVG E v options = catchFinally E ?xml ?run"
      and "generateStaticSVG (cleanTeardown E) v options = catchFinally ?E0 ?xml ?run"
      by (auto simp add: generateStaticSVG_cases cleanTeardown_def run simp del: str_includes.simps)
    then show ?thesis
      using catchFinally_teardown[of ?run E ?xml, OF *] by (simp cong: sum.case_cong)
  qed
qed

lemma teardown_second_module:
  "(case fst (generateStaticSVG2 t (cleanTeardown E) v options) of
      Inl e \<Rightarrow> fst (generateStaticSVG2 t E v options) = Inl e
    | Inr r \<Rightarrow> fst (generateStaticSVG2 t E v options) =
                Inr (r\<lparr>warnings := SvgGenerationResult.warnings r @
                       (if useFallbackEnv E \<or> importViewerModule E \<noteq> None then []
                        else teardownWarnings E)\<rparr>)) \<and>
   (\<exists>ws. snd (generateStaticSVG2 t E v options) = snd (generateStaticSVG2 t (cleanTeardown E) v options) @ ws
        \<and> set ws \<subseteq> set (teardownWarnings E))"
proof -
  let ?config = "mergeSvgOptions DEFAULT_SVG_OPTIONS2 options"
  let ?xml = "theString v"
  let ?run = "renderBody2 t E ?xml ?config"
  let ?E0 = "E\<lparr>destroyViewer := None, closeWindow := None\<rparr>"
  have run: "renderBody2 t ?E0 ?xml ?config = ?run"
    by (rule renderBody2_teardown)
  have fb: "generateFallbackSvg ?E0 ?config = generateFallbackSvg E ?config"
    by (rule generateFallbackSvg_teardown)
  have *: "\<And>r. fst ?run = Inr r \<Longrightarrow>
            domAssigned (snd ?run) \<and> viewerAssigned (snd ?run) \<and> SvgGenerationResult.warnings r = warningsSoFar (snd ?run)"
    by (rule renderBody2_success)
  consider (a) "\<not> truthy v \<or> typeof v \<noteq> ''string''"
    | (b) "\<not> (\<not> truthy v \<or> typeof v \<noteq> ''string'')"
          "\<not> str_includes ?xml ''<bpmn'' \<and> \<not> str_includes ?xml ''<definitions''"
    | (f) "\<not> (\<not> truthy v \<or> typeof v \<noteq> ''string'')"
          "\<not> (\<not> str_includes ?xml ''<bpmn'' \<and> \<not> str_includes ?xml ''<definitions'')"
          "useFallbackEnv E \<or> importViewerModule E \<noteq> None"
    | (c) "\<not> (\<not> truthy v \<or> typeof v \<noteq> ''string'')"
          "\<not> (\<not> str_includes ?xml ''<bpmn'' \<and> \<not> str_includes ?xml ''<definitions'')"
          "\<not> (useFallbackEnv E \<or> importViewerModule E \<noteq> None)"
    by blast
  then show ?thesis
  proof cases
    case a
    then show ?thesis by (simp add: generateStaticSVG2_cases del: str_includes.simps)
  next
    case b
    then show ?thesis by (simp add: generateStaticSVG2_cases del: str_includes.simps)
  next
    case f
    then have "generateStaticSVG2 t E v options = (Inr (generateFallbackSvg E ?config), [])"
      and "generateStaticSVG2 t (cleanTeardown E) v options = (Inr (generateFallbackSvg E ?config), [])"
      by (auto simp add: generateStaticSVG2_cases cleanTeardown_def fb simp del: str_includes.simps)
    with f(3) show ?thesis by simp
  next
    case c
    then have "generateStaticSVG2 t E v options = catchFinally E ?xml ?run"
      and "generateStaticSVG2 t (cleanTeardown E) v options = catchFinally ?E0 ?xml ?run"
      by (auto simp add: generateStaticSVG2_cases cleanTeardown_def run simp del: str_includes.simps)
    with c(3) show ?thesis
      using catchFinally_teardown[of ?run E ?xml, OF *] by (simp cong: sum.case_cong)
  qed
qed

lemma sample_render:
  "generateStaticSVG sampleEngine (JsString sampleXml) plainOptions =
     (Inr \<lparr>svg = ''<svg></svg>'', width = Defined (Number 800), height = Defined (Number 600),
          zoom = Defined (Number 1), processingTime = 42,
           warnings = []\<rparr>, [])"
  by (simp add: generateStaticSVG_def mergeSvgOptions_def DEFAULT_SVG_OPTIONS_def orDefault_def
        renderBody_def zoomAndExport_def applyZoom_def fitViewportZoom_def exportSvg_def
        catchFinally_def cleanup_def mathRound_def toNumber_def numLess_def sampleEngine_def
        plainOptions_def theString_def sampleXml_def Let_def)

text \<open>
  C6. Take any run of the engine and the same run with a clean teardown. In both
  modules, where the clean run throws an error, the run throws that same error; where the
  clean run returns a result, the run returns that result with, appended to its warnings,
  one warning for each teardown call that threw (none on the second module's placeholder
  path, which makes no teardown call). The warnings array itself only grows by such
  warnings.
\<close>

theorem teardown_failures_become_warnings:
  "(case fst (generateStaticSVG (cleanTeardown E) v options) of
      Inl e \<Rightarrow> fst (generateStaticSVG E v options) = Inl e
    | Inr r \<Rightarrow> fst (generateStaticSVG E v options) =
                Inr (r\<lparr>warnings := SvgGenerationResult.warnings r @ teardownWarnings E\<rparr>)) \<and>
   (\<exists>ws. snd (generateStaticSVG E v options) = snd (generateStaticSVG (cleanTeardown E) v options) @ ws
        \<and> set ws \<subseteq> set (teardownWarnings E)) \<and>
   (case fst (generateStaticSVG2 t (cleanTeardown E) v options) of
      Inl e \<Rightarrow> fst (generateStaticSVG2 t E v options) = Inl e
    | Inr r \<Rightarrow> fst (generateStaticSVG2 t E v options) =
                Inr (r\<lparr>warnings := SvgGenerationResult.warnings r @
                       (if useFallbackEnv E \<or> importViewerModule E \<noteq> None then []
                        else teardownWarnings E)\<rparr>)) \<and>
   (\<exists>ws. snd (generateStaticSVG2 t E v options) = snd (generateStaticSVG2 t (cleanTeardown E) v options) @ ws
        \<and> set ws \<subseteq> set (teardownWarnings E))"
  using teardown_first_module[of E v options] teardown_second_module[of t E v options] by blast

theorem teardown_failures_become_warnings_witness:
  "fst (generateStaticSVG
          (sampleEngine\<lparr>destroyViewer := Some ''viewer gone'', closeWindow := Some ''window gone''\<rparr>)
          (JsString sampleXml) plainOptions) =
     Inr \<lparr>svg = ''<svg></svg>'', width = Defined (Number 800), height = Defined (Number 600),
          zoom = Defined (Number 1), processingTime = 42,
          warnings = [''Viewer cleanup warning: viewer gone'', ''DOM cleanup warning: window gone'']\<rparr>"
proof -
  let ?E = "sampleEngine\<lparr>destroyViewer := Some ''viewer gone'', closeWindow := Some ''window gone''\<rparr>"
  have clean: "cleanTeardown ?E = sampleEngine"
    by (simp add: cleanTeardown_def sampleEngine_def)
  have tw: "teardownWarnings ?E =
      [''Viewer cleanup warning: viewer gone'', ''DOM cleanup warning: window gone'']"
    by (simp add: teardownWarnings_def)
  show ?thesis
    using teardown_failures_become_warnings[of ?E "JsString sampleXml" plainOptions, THEN conjunct1]
    by (simp add: clean tw sample_render)
qed
















end
